theory Spec2Isabelle
  imports Complex_Main
begin

section \<open>Tensors\<close>

text \<open>
  Tensor arithmetic is modelled over the real numbers. A tensor of shape \<open>[B, d]\<close> is a
  list of \<open>B\<close> rows, a column of shape \<open>[B, 1]\<close> has rows of length one. Besides its
  values a tensor records whether autograd tracks it (\<open>requires_grad\<close>): the result of an
  operation is tracked when gradient mode is enabled and one of its operands is tracked.
  Every operation takes the gradient mode \<open>ge\<close> as its first argument; the body of a
  \<^verbatim>\<open>with torch.no_grad()\<close> block runs with \<open>ge = False\<close>.
  Element-wise operations on two tensors are defined on operands of the same shape, which is
  what the callers below pass (on other shapes the library broadcasts or raises, the model
  truncates).
\<close>

type_synonym vec = "real list"

record tensor =
  rows :: "vec list"
  requires_grad :: bool

text \<open>A zero-dimensional tensor, such as \<^verbatim>\<open>torch.tensor(0.3)\<close> or the result of \<^verbatim>\<open>.mean()\<close>.\<close>

record scalar =
  sval :: real
  sgrad :: bool

definition from_rows :: "vec list \<Rightarrow> tensor" where
  "from_rows xs = \<lparr>rows = xs, requires_grad = False\<rparr>"

definition t_map :: "(real \<Rightarrow> real) \<Rightarrow> bool \<Rightarrow> tensor \<Rightarrow> tensor" where
  "t_map f ge a = \<lparr>rows = map (map f) (rows a), requires_grad = (ge \<and> requires_grad a)\<rparr>"

definition t_zip :: "(real \<Rightarrow> real \<Rightarrow> real) \<Rightarrow> bool \<Rightarrow> tensor \<Rightarrow> tensor \<Rightarrow> tensor" where
  "t_zip f ge a b =
     \<lparr>rows = map2 (map2 f) (rows a) (rows b),
      requires_grad = (ge \<and> (requires_grad a \<or> requires_grad b))\<rparr>"

definition t_scal :: "(real \<Rightarrow> real \<Rightarrow> real) \<Rightarrow> bool \<Rightarrow> scalar \<Rightarrow> tensor \<Rightarrow> tensor" where
  "t_scal f ge s a =
     \<lparr>rows = map (map (f (sval s))) (rows a),
      requires_grad = (ge \<and> (sgrad s \<or> requires_grad a))\<rparr>"

definition t_sum_last :: "bool \<Rightarrow> tensor \<Rightarrow> tensor" where
  \<comment> \<open>\<^verbatim>\<open>.sum(dim=-1, keepdim=True)\<close>\<close>
  "t_sum_last ge a = \<lparr>rows = map (\<lambda>r. [sum_list r]) (rows a), requires_grad = (ge \<and> requires_grad a)\<rparr>"

definition mean_list :: "real list \<Rightarrow> real" where
  "mean_list xs = sum_list xs / real (length xs)"

definition t_mean :: "bool \<Rightarrow> tensor \<Rightarrow> scalar" where
  \<comment> \<open>\<^verbatim>\<open>.mean()\<close> over all elements; on an empty tensor the library yields NaN, the model 0.\<close>
  "t_mean ge a = \<lparr>sval = mean_list (concat (rows a)), sgrad = (ge \<and> requires_grad a)\<rparr>"

definition s_neg :: "bool \<Rightarrow> scalar \<Rightarrow> scalar" where
  "s_neg ge s = \<lparr>sval = - sval s, sgrad = (ge \<and> sgrad s)\<rparr>"

definition s_detach :: "scalar \<Rightarrow> scalar" where
  \<comment> \<open>\<^verbatim>\<open>.clone().detach()\<close>\<close>
  "s_detach s = \<lparr>sval = sval s, sgrad = False\<rparr>"

definition t_randn_like :: "(nat \<Rightarrow> nat \<Rightarrow> real) \<Rightarrow> tensor \<Rightarrow> tensor" where
  \<comment> \<open>\<^verbatim>\<open>torch.randn_like(a)\<close>: the draw of the generator is the parameter \<open>noise\<close>,
      indexed by row and column; the result has the shape of \<open>a\<close>.\<close>
  "t_randn_like noise a =
     \<lparr>rows = map (\<lambda>i. map (noise i) [0..<length (rows a ! i)]) [0..<length (rows a)],
      requires_grad = False\<rparr>"

section \<open>Squashed Gaussian policy (algo.py)\<close>

definition normal_log_prob :: "real \<Rightarrow> real \<Rightarrow> real \<Rightarrow> real" where
  \<comment> \<open>\<^verbatim>\<open>torch.distributions.Normal(loc, scale).log_prob(value)\<close>\<close>
  "normal_log_prob loc scale v =
     - ((v - loc)\<^sup>2) / (2 * scale\<^sup>2) - ln scale - ln (sqrt (2 * pi))"

definition calc_log_pi :: "bool \<Rightarrow> tensor \<Rightarrow> tensor \<Rightarrow> tensor \<Rightarrow> tensor" where
  "calc_log_pi ge stds noises actions =
     (let gaussian_log_probs = t_sum_last ge (t_zip (normal_log_prob 0) ge stds noises);
          log_pis = t_zip (-) ge gaussian_log_probs
                      (t_sum_last ge (t_map (\<lambda>a. ln (1 - a\<^sup>2 + 1 / 10 ^ 6)) ge actions))
      in log_pis)"

definition reparameterize ::
  "bool \<Rightarrow> (nat \<Rightarrow> nat \<Rightarrow> real) \<Rightarrow> tensor \<Rightarrow> tensor \<Rightarrow> tensor \<times> tensor" where
  "reparameterize ge noise means log_stds =
     (let stds = t_map exp ge log_stds;
          noises = t_zip (*) ge stds (t_randn_like noise means);
          tmp = t_zip (+) ge noises means;
          acts = t_map tanh ge tmp;
          log_pis = calc_log_pi ge stds noises acts
      in (acts, log_pis))"


section \<open>Replay buffer (algo.py)\<close>

datatype error = AssertionError | ValueError | IndexError | RuntimeError | ZeroDivisionError

record experience =
  exp_state :: vec
  exp_action :: vec
  exp_reward :: vec
  exp_next_state :: vec
  is_state_terminal :: bool

text \<open>
  The wrapper's fields \<^verbatim>\<open>_idx\<close> and \<^verbatim>\<open>_size\<close> are set at construction and never
  written again; the number of stored transitions is the length of the library queue.

  The store behind the buffer is the replay buffer of the pfrl library, created with the
  default \<open>num_steps = 1\<close>: a queue of at most \<open>capacity\<close> entries, each entry the list of
  the one experience appended. Appending to a full queue drops the oldest entry. Sampling
  \<open>k\<close> entries asserts that \<open>k\<close> entries are stored and then reads the entries at the
  indices chosen by the library's random generator, which is the parameter \<open>rng\<close> here
  (called with the number of stored entries and \<open>k\<close>).
\<close>

record pfrl_buffer =
  capacity :: nat
  memory :: "experience list list"

definition pfrl_append :: "pfrl_buffer \<Rightarrow> experience \<Rightarrow> pfrl_buffer" where
  "pfrl_append b e =
     (let m = memory b @ [[e]]
      in b\<lparr>memory := (if capacity b < length m then tl m else m)\<rparr>)"

definition pfrl_sample ::
  "(nat \<Rightarrow> nat \<Rightarrow> nat list) \<Rightarrow> pfrl_buffer \<Rightarrow> int \<Rightarrow> error + experience list list" where
  "pfrl_sample rng b k =
     (if int (length (memory b)) < k then Inl AssertionError
      else if k < 0 then Inl ValueError
      else Inr (map (\<lambda>i. memory b ! i) (rng (length (memory b)) (nat k))))"

record replay_buffer =
  idx_rb :: nat
  size_rb :: nat
  buffer_size :: nat
  buf :: pfrl_buffer

definition ReplayBuffer :: "nat \<Rightarrow> replay_buffer" where
  "ReplayBuffer n = \<lparr>idx_rb = 0, size_rb = 0, buffer_size = n, buf = \<lparr>capacity = n, memory = []\<rparr>\<rparr>"

definition append_rb ::
  "replay_buffer \<Rightarrow> vec \<Rightarrow> vec \<Rightarrow> real \<Rightarrow> bool \<Rightarrow> vec \<Rightarrow> replay_buffer" where
  "append_rb rb s a r d ns =
     rb\<lparr>buf := pfrl_append (buf rb)
            \<lparr>exp_state = s, exp_action = a, exp_reward = [r], exp_next_state = ns,
             is_state_terminal = d\<rparr>\<rparr>"

definition first_of :: "'a list \<Rightarrow> error + 'a" where
  \<comment> \<open>\<^verbatim>\<open>xs[0]\<close>\<close>
  "first_of xs = (case xs of [] \<Rightarrow> Inl IndexError | x # _ \<Rightarrow> Inr x)"

fun collect :: "experience list list \<Rightarrow> error + experience list" where
  \<comment> \<open>the \<^verbatim>\<open>for obs in ...\<close> loop of \<^verbatim>\<open>sample\<close>, reading \<^verbatim>\<open>obs[0]\<close> of every entry\<close>
  "collect [] = Inr []"
| "collect (obs # rest) =
     (case first_of obs of
        Inl e \<Rightarrow> Inl e
      | Inr x \<Rightarrow> (case collect rest of Inl e \<Rightarrow> Inl e | Inr xs \<Rightarrow> Inr (x # xs)))"

definition cat_reshape :: "vec list \<Rightarrow> error + tensor" where
  \<comment> \<open>\<^verbatim>\<open>torch.cat(xs).reshape(len(xs), *xs[0].shape)\<close> on one-dimensional tensors:
      concatenation fails on the empty list, the reshape fails unless the number of
      elements is \<open>len(xs)\<close> times the length of the first.\<close>
  "cat_reshape xs =
     (case xs of
        [] \<Rightarrow> Inl RuntimeError
      | x # _ \<Rightarrow>
          (let flat = concat xs; n = length xs; w = length x
           in if length flat = n * w
              then Inr (from_rows (map (\<lambda>i. take w (drop (i * w) flat)) [0..<n]))
              else Inl RuntimeError))"

record batch =
  b_states :: tensor
  b_acts :: tensor
  b_rews :: tensor
  b_dones :: tensor
  b_n_states :: tensor

definition float_of_bool :: "bool \<Rightarrow> real" where
  "float_of_bool d = (if d then 1 else 0)"

definition sample :: "(nat \<Rightarrow> nat \<Rightarrow> nat list) \<Rightarrow> replay_buffer \<Rightarrow> int \<Rightarrow> error + batch" where
  "sample rng rb batch_size =
     (case pfrl_sample rng (buf rb) batch_size of
        Inl e \<Rightarrow> Inl e
      | Inr obss \<Rightarrow>
         (case collect obss of
            Inl e \<Rightarrow> Inl e
          | Inr xs \<Rightarrow>
             (case cat_reshape (map exp_state xs) of
                Inl e \<Rightarrow> Inl e
              | Inr states \<Rightarrow>
             (case cat_reshape (map exp_next_state xs) of
                Inl e \<Rightarrow> Inl e
              | Inr n_states \<Rightarrow>
             (case cat_reshape (map exp_action xs) of
                Inl e \<Rightarrow> Inl e
              | Inr acts \<Rightarrow>
             (case cat_reshape (map exp_reward xs) of
                Inl e \<Rightarrow> Inl e
              | Inr rews \<Rightarrow>
             (case cat_reshape (map (\<lambda>x. [float_of_bool (is_state_terminal x)]) xs) of
                Inl e \<Rightarrow> Inl e
              | Inr dones \<Rightarrow>
                  Inr \<lparr>b_states = states, b_acts = acts, b_rews = rews,
                       b_dones = dones, b_n_states = n_states\<rparr>)))))))"

section \<open>Networks and optimizers\<close>

text \<open>
  A network module holds its parameter tensors and whether they are tracked by autograd.
  The forward passes of the actor and of the twin critic (file SAC\_model.py is not among
  the sources), the gradients that \<^verbatim>\<open>backward()\<close> leaves on the parameters and the Adam
  step on a parameter list are parameters of the model, collected in \<open>networks\<close>.
\<close>

record module =
  params :: "vec list"
  trainable :: bool

record 'o networks =
  actor_net :: "vec list \<Rightarrow> vec \<Rightarrow> vec \<times> vec"
  critic_net :: "vec list \<Rightarrow> vec \<Rightarrow> vec \<Rightarrow> real \<times> real"
  actor_backward :: "vec list \<Rightarrow> vec list \<Rightarrow> real \<Rightarrow> tensor \<Rightarrow> (nat \<Rightarrow> nat \<Rightarrow> real) \<Rightarrow> vec list"
  critic_backward :: "vec list \<Rightarrow> tensor \<Rightarrow> tensor \<Rightarrow> tensor \<Rightarrow> vec list"
  optim_step :: "'o \<Rightarrow> vec list \<Rightarrow> vec list \<Rightarrow> vec list \<times> 'o"

definition actor_forward :: "'o networks \<Rightarrow> bool \<Rightarrow> module \<Rightarrow> tensor \<Rightarrow> tensor \<times> tensor" where
  "actor_forward nets ge m states =
     (let g = (ge \<and> (trainable m \<or> requires_grad states))
      in (\<lparr>rows = map (\<lambda>s. fst (actor_net nets (params m) s)) (rows states), requires_grad = g\<rparr>,
          \<lparr>rows = map (\<lambda>s. snd (actor_net nets (params m) s)) (rows states), requires_grad = g\<rparr>))"

definition critic_forward ::
  "'o networks \<Rightarrow> bool \<Rightarrow> module \<Rightarrow> tensor \<Rightarrow> tensor \<Rightarrow> tensor \<times> tensor" where
  "critic_forward nets ge m states acts =
     (let g = (ge \<and> (trainable m \<or> requires_grad states \<or> requires_grad acts))
      in (\<lparr>rows = map2 (\<lambda>s a. [fst (critic_net nets (params m) s a)]) (rows states) (rows acts),
           requires_grad = g\<rparr>,
          \<lparr>rows = map2 (\<lambda>s a. [snd (critic_net nets (params m) s a)]) (rows states) (rows acts),
           requires_grad = g\<rparr>))"

definition sample_stochastic ::
  "'o networks \<Rightarrow> bool \<Rightarrow> (nat \<Rightarrow> nat \<Rightarrow> real) \<Rightarrow> module \<Rightarrow> tensor \<Rightarrow> tensor \<times> tensor" where
  \<comment> \<open>Modelled from the spec: \<^verbatim>\<open>ActorNetwork.sample(states, deterministic=False)\<close> of
      SAC\_model.py, which is not among the sources: the network gives mean and log-std,
      the action and its log-probability come from \<open>reparameterize\<close>.\<close>
  "sample_stochastic nets ge noise m states =
     (let (means, log_stds) = actor_forward nets ge m states
      in reparameterize ge noise means log_stds)"

definition sample_deterministic :: "'o networks \<Rightarrow> bool \<Rightarrow> module \<Rightarrow> tensor \<Rightarrow> tensor" where
  \<comment> \<open>Modelled from the spec: \<^verbatim>\<open>ActorNetwork.sample(states, deterministic=True)\<close> of
      SAC\_model.py, which is not among the sources: \<open>tanh\<close> of the mean, no log-probability.\<close>
  "sample_deterministic nets ge m states = t_map tanh ge (fst (actor_forward nets ge m states))"

text \<open>
  \<^verbatim>\<open>torch.optim.Adam\<close> on one scalar parameter, with the library's default coefficients.
\<close>

record adam =
  lr :: real
  beta1 :: real
  beta2 :: real
  eps :: real
  step_count :: nat
  exp_avg :: real
  exp_avg_sq :: real

definition Adam :: "real \<Rightarrow> adam" where
  "Adam l = \<lparr>lr = l, beta1 = 9 / 10, beta2 = 999 / 1000, eps = 1 / 10 ^ 8,
             step_count = 0, exp_avg = 0, exp_avg_sq = 0\<rparr>"

definition adam_step :: "adam \<Rightarrow> real \<Rightarrow> real \<Rightarrow> real \<times> adam" where
  "adam_step opt g p =
     (let t = step_count opt + 1;
          m = beta1 opt * exp_avg opt + (1 - beta1 opt) * g;
          v = beta2 opt * exp_avg_sq opt + (1 - beta2 opt) * g\<^sup>2;
          bias_correction1 = 1 - beta1 opt ^ t;
          bias_correction2 = 1 - beta2 opt ^ t;
          step_size = lr opt / bias_correction1;
          denom = sqrt v / sqrt bias_correction2 + eps opt
      in (p - step_size * (m / denom), opt\<lparr>step_count := t, exp_avg := m, exp_avg_sq := v\<rparr>))"

definition clip_grad_norm :: "vec list \<Rightarrow> real \<Rightarrow> vec list" where
  \<comment> \<open>\<^verbatim>\<open>torch.nn.utils.clip_grad_norm_\<close> with the 2-norm\<close>
  "clip_grad_norm grads max_norm =
     (let total_norm = sqrt (sum_list (map (\<lambda>x. x\<^sup>2) (concat grads)));
          clip_coef = max_norm / (total_norm + 1 / 10 ^ 6);
          clip_coef_clamped = min clip_coef 1
      in map (map (\<lambda>x. x * clip_coef_clamped)) grads)"

section \<open>Environment\<close>

text \<open>
  The environment is an external collaborator: an object with a state of type \<open>'e\<close> and the
  operations the code calls on it. \<open>env_step\<close> takes the optional second argument that
  evaluation passes (\<^verbatim>\<open>step(action, True)\<close>); \<open>action_space_sample\<close> draws from the
  environment's own random sampler.
\<close>

record 'e env_ops =
  env_reset :: "'e \<Rightarrow> vec \<times> 'e"
  env_step :: "vec \<Rightarrow> bool option \<Rightarrow> 'e \<Rightarrow> (vec \<times> real \<times> bool) \<times> 'e"
  action_space_sample :: "'e \<Rightarrow> vec \<times> 'e"
  env_seed :: "int \<Rightarrow> 'e \<Rightarrow> 'e"
  generate_mp4 :: "'e \<Rightarrow> 'e"

section \<open>SAC (SAC.py)\<close>

record 'o sac =
  buffer :: replay_buffer
  actor :: module
  critic :: module
  critic_target :: module
  min_alpha :: scalar
  alpha :: scalar
  optim_actor :: 'o
  optim_critic :: 'o
  optim_alpha :: adam
  gamma :: real
  tau :: real
  reward_scale :: real
  start_steps :: int
  batch_size :: int
  learning_steps :: int
  total_rew :: real

definition load_state_dict :: "module \<Rightarrow> vec list \<Rightarrow> module" where
  "load_state_dict m sd = m\<lparr>params := sd\<rparr>"

definition SAC_init ::
  "vec list \<Rightarrow> vec list \<Rightarrow> vec list \<Rightarrow> 'o \<Rightarrow> 'o \<Rightarrow>
   int \<Rightarrow> real \<Rightarrow> real \<Rightarrow> nat \<Rightarrow> int \<Rightarrow> real \<Rightarrow> real \<Rightarrow> real \<Rightarrow> 'o sac" where
  \<comment> \<open>\<open>actor0\<close>, \<open>critic0\<close>, \<open>target0\<close> are the freshly constructed networks' weights,
      \<open>oa\<close>, \<open>oc\<close> the fresh optimizer states of actor and critic.\<close>
  "SAC_init actor0 critic0 target0 oa oc
            batch_size0 gamma0 lr_alpha buffer_size0 start_steps0 tau0 min_alpha0 reward_scale0 =
     (let critic_m = \<lparr>params = critic0, trainable = True\<rparr>;
          target_m = \<lparr>params = target0, trainable = True\<rparr>;
          target_m = load_state_dict target_m (params critic_m);
          target_m = target_m\<lparr>trainable := False\<rparr>
      in \<lparr>buffer = ReplayBuffer buffer_size0,
          actor = \<lparr>params = actor0, trainable = True\<rparr>,
          critic = critic_m,
          critic_target = target_m,
          min_alpha = \<lparr>sval = min_alpha0, sgrad = False\<rparr>,
          alpha = \<lparr>sval = min_alpha0 * 3, sgrad = True\<rparr>,
          optim_actor = oa,
          optim_critic = oc,
          optim_alpha = Adam lr_alpha,
          gamma = gamma0,
          tau = tau0,
          reward_scale = reward_scale0,
          start_steps = start_steps0,
          batch_size = batch_size0,
          learning_steps = 0,
          total_rew = 0\<rparr>)"


definition explore :: "'o networks \<Rightarrow> (nat \<Rightarrow> nat \<Rightarrow> real) \<Rightarrow> 'o sac \<Rightarrow> vec \<Rightarrow> vec \<times> real" where
  \<comment> \<open>\<^verbatim>\<open>Algorithm.explore\<close> (algo.py): one state as a batch of one row, no gradient.\<close>
  "explore nets noise st s =
     (let (act, log_pi) = sample_stochastic nets False noise (actor st) (from_rows [s])
      in (rows act ! 0, rows log_pi ! 0 ! 0))"

definition exploit :: "'o networks \<Rightarrow> 'o sac \<Rightarrow> vec \<Rightarrow> vec" where
  \<comment> \<open>\<^verbatim>\<open>Algorithm.exploit\<close> (algo.py)\<close>
  "exploit nets st s =
     (let act = sample_deterministic nets False (actor st) (from_rows [s])
      in rows act ! 0)"

definition select_action ::
  "'e env_ops \<Rightarrow> 'o networks \<Rightarrow> (nat \<Rightarrow> nat \<Rightarrow> real) \<Rightarrow> 'o sac \<Rightarrow> 'e \<Rightarrow> vec \<Rightarrow> int \<Rightarrow> vec \<times> 'e" where
  \<comment> \<open>the \<^verbatim>\<open>if steps <= self.start_steps\<close> statement of \<^verbatim>\<open>SAC.step\<close>\<close>
  "select_action env nets noise st e s steps =
     (if steps \<le> start_steps st then action_space_sample env e
      else (fst (explore nets noise st s), e))"

definition step ::
  "'e env_ops \<Rightarrow> 'o networks \<Rightarrow> (nat \<Rightarrow> nat \<Rightarrow> real) \<Rightarrow> 'o sac \<Rightarrow> 'e \<Rightarrow> vec \<Rightarrow> int \<Rightarrow> int \<Rightarrow>
   (vec \<times> int) \<times> 'o sac \<times> 'e" where
  "step env nets noise st e s t steps =
     (let t1 = t + 1;
          (act, e1) = select_action env nets noise st e s steps;
          ((n_state, rew, done), e2) = env_step env act None e1;
          st1 = st\<lparr>total_rew := total_rew st + rew\<rparr>;
          st2 = st1\<lparr>buffer := append_rb (buffer st1) s act rew done n_state\<rparr>
      in if done
         then (let (n_state0, e3) = env_reset env e2
               in ((n_state0, 0), st2\<lparr>total_rew := 0\<rparr>, e3))
         else ((n_state, t1), st2, e2))"

subsection \<open>Losses and updates\<close>

definition actor_loss_func ::
  "'o networks \<Rightarrow> (nat \<Rightarrow> nat \<Rightarrow> real) \<Rightarrow> 'o sac \<Rightarrow> tensor \<Rightarrow> scalar \<times> tensor" where
  \<comment> \<open>\<^verbatim>\<open>self.actor.sample(states)\<close> leaves the flag to its default; the two results it
      unpacks are those of the stochastic branch.\<close>
  "actor_loss_func nets noise st states =
     (let (acts, log_pis) = sample_stochastic nets True noise (actor st) states;
          (q1, q2) = critic_forward nets True (critic st) states acts;
          loss_actor = t_mean True
                         (t_zip (-) True (t_scal (*) True (alpha st) log_pis) (t_zip min True q1 q2))
      in (loss_actor, log_pis))"

definition critic_target_qs ::
  "'o networks \<Rightarrow> (nat \<Rightarrow> nat \<Rightarrow> real) \<Rightarrow> 'o sac \<Rightarrow> tensor \<Rightarrow> tensor \<Rightarrow> tensor \<Rightarrow> tensor" where
  \<comment> \<open>the \<^verbatim>\<open>with torch.no_grad()\<close> block of \<^verbatim>\<open>critic_loss_func\<close> and the line
      after it, which computes \<^verbatim>\<open>target_qs\<close> with gradient mode enabled again\<close>
  "critic_target_qs nets noise st rews dones n_states =
     (let (n_actions, log_pis) = sample_stochastic nets False noise (actor st) n_states;
          (q1, q2) = critic_forward nets False (critic_target st) n_states n_actions;
          target_vs = t_zip (-) False (t_zip min False q1 q2) (t_scal (*) False (alpha st) log_pis);
          target_qs = t_zip (+) True
                        (t_map (\<lambda>r. reward_scale st * r) True rews)
                        (t_zip (*) True (t_map (\<lambda>v. gamma st * v) True target_vs)
                                        (t_map (\<lambda>d. 1 - d) True dones))
      in target_qs)"

definition critic_loss_func ::
  "'o networks \<Rightarrow> (nat \<Rightarrow> nat \<Rightarrow> real) \<Rightarrow> 'o sac \<Rightarrow> tensor \<Rightarrow> tensor \<Rightarrow> tensor \<Rightarrow> tensor \<Rightarrow> tensor \<Rightarrow>
   scalar \<times> scalar" where
  "critic_loss_func nets noise st states actions rews dones n_states =
     (let (now_q1, now_q2) = critic_forward nets True (critic st) states actions;
          target_qs = critic_target_qs nets noise st rews dones n_states;
          loss_c1 = t_mean True (t_map (\<lambda>x. x\<^sup>2) True (t_zip (-) True now_q1 target_qs));
          loss_c2 = t_mean True (t_map (\<lambda>x. x\<^sup>2) True (t_zip (-) True now_q2 target_qs))
      in (loss_c1, loss_c2))"

definition update_critic ::
  "'o networks \<Rightarrow> (nat \<Rightarrow> nat \<Rightarrow> real) \<Rightarrow> 'o sac \<Rightarrow> tensor \<Rightarrow> tensor \<Rightarrow> tensor \<Rightarrow> tensor \<Rightarrow> tensor \<Rightarrow>
   'o sac \<times> scalar \<times> scalar" where
  \<comment> \<open>\<^verbatim>\<open>optim_critic\<close> was built over \<^verbatim>\<open>self.critic.parameters()\<close>.\<close>
  "update_critic nets noise st states actions rews dones n_states =
     (let (loss_c1, loss_c2) = critic_loss_func nets noise st states actions rews dones n_states;
          grads = critic_backward nets (params (critic st)) states actions
                    (critic_target_qs nets noise st rews dones n_states);
          grads = clip_grad_norm grads (1 / 2);
          (p, opt) = optim_step nets (optim_critic st) grads (params (critic st))
      in (st\<lparr>critic := (critic st)\<lparr>params := p\<rparr>, optim_critic := opt\<rparr>,
          s_detach loss_c1, s_detach loss_c2))"

definition entropy_detached :: "'o sac \<Rightarrow> tensor \<Rightarrow> tensor" where
  \<comment> \<open>the \<^verbatim>\<open>with torch.no_grad()\<close> block of \<^verbatim>\<open>entropy_adjust_func\<close>:
      \<^verbatim>\<open>loss = log_pis + self.min_alpha\<close>\<close>
  "entropy_detached st log_pis = t_scal (\<lambda>m x. x + m) False (min_alpha st) log_pis"

definition entropy_loss :: "'o sac \<Rightarrow> tensor \<Rightarrow> scalar" where
  \<comment> \<open>the value of \<^verbatim>\<open>loss\<close> in \<^verbatim>\<open>entropy_adjust_func\<close> before \<^verbatim>\<open>backward()\<close>\<close>
  "entropy_loss st log_pis =
     (let loss = entropy_detached st log_pis;
          loss = s_neg True (t_mean True (t_scal (*) True (alpha st) loss))
      in loss)"

definition entropy_grad :: "'o sac \<Rightarrow> tensor \<Rightarrow> real" where
  \<comment> \<open>what \<^verbatim>\<open>zero_grad()\<close> followed by \<^verbatim>\<open>loss.backward()\<close> leaves in
      \<^verbatim>\<open>alpha.grad\<close>: the derivative of the entropy loss in \<open>alpha\<close>, the other factor
      being a constant of the graph (lemma \<open>entropy_grad_is_derivative\<close>).\<close>
  "entropy_grad st log_pis = - mean_list (concat (rows (entropy_detached st log_pis)))"

definition entropy_adjust_func :: "'o sac \<Rightarrow> tensor \<Rightarrow> 'o sac" where
  \<comment> \<open>\<^verbatim>\<open>optim_alpha\<close> was built over \<^verbatim>\<open>[self.alpha]\<close>.\<close>
  "entropy_adjust_func st log_pis =
     (let g = entropy_grad st log_pis;
          (a, opt) = adam_step (optim_alpha st) g (sval (alpha st))
      in st\<lparr>alpha := (alpha st)\<lparr>sval := a\<rparr>, optim_alpha := opt\<rparr>)"

definition update_actor ::
  "'o networks \<Rightarrow> (nat \<Rightarrow> nat \<Rightarrow> real) \<Rightarrow> 'o sac \<Rightarrow> tensor \<Rightarrow> 'o sac \<times> scalar" where
  \<comment> \<open>\<^verbatim>\<open>optim_actor\<close> was built over \<^verbatim>\<open>self.actor.parameters()\<close>.\<close>
  "update_actor nets noise st states =
     (let (loss_actor, log_pis) = actor_loss_func nets noise st states;
          grads = actor_backward nets (params (actor st)) (params (critic st)) (sval (alpha st))
                    states noise;
          grads = clip_grad_norm grads (1 / 2);
          (p, opt) = optim_step nets (optim_actor st) grads (params (actor st));
          st1 = st\<lparr>actor := (actor st)\<lparr>params := p\<rparr>, optim_actor := opt\<rparr>;
          st2 = entropy_adjust_func st1 log_pis
      in (st2, s_detach loss_actor))"

definition soft_update :: "real \<Rightarrow> vec list \<Rightarrow> vec list \<Rightarrow> vec list" where
  \<comment> \<open>the loop of \<^verbatim>\<open>update_target\<close>: \<^verbatim>\<open>mul_\<close> then \<^verbatim>\<open>add_\<close> in place on every pair of
      the \<^verbatim>\<open>zip\<close>; target tensors beyond the shorter list are left as they are\<close>
  "soft_update tau0 targets traineds =
     map2 (\<lambda>target trained. map2 (\<lambda>x y. x * (1 - tau0) + tau0 * y) target trained)
          targets traineds
     @ drop (length traineds) targets"

definition update_target :: "'o sac \<Rightarrow> 'o sac" where
  "update_target st =
     st\<lparr>critic_target :=
          (critic_target st)\<lparr>params :=
             soft_update (tau st) (params (critic_target st)) (params (critic st))\<rparr>\<rparr>"

definition update ::
  "'o networks \<Rightarrow> (nat \<Rightarrow> nat \<Rightarrow> nat list) \<Rightarrow> (nat \<Rightarrow> nat \<Rightarrow> real) \<Rightarrow> (nat \<Rightarrow> nat \<Rightarrow> real) \<Rightarrow> 'o sac \<Rightarrow>
   error + ('o sac \<times> scalar \<times> scalar \<times> scalar)" where
  \<comment> \<open>\<open>noise_c\<close> and \<open>noise_a\<close> are the two draws of the policy noise, in the critic and
      in the actor update.\<close>
  "update nets rng noise_c noise_a st =
     (let st0 = st\<lparr>learning_steps := learning_steps st + 1\<rparr>
      in case sample rng (buffer st0) (batch_size st0) of
           Inl e \<Rightarrow> Inl e
         | Inr b \<Rightarrow>
            (let (st1, l_c1, l_c2) =
                   update_critic nets noise_c st0 (b_states b) (b_acts b) (b_rews b) (b_dones b)
                     (b_n_states b);
                 (st2, l_a1) = update_actor nets noise_a st1 (b_states b);
                 st3 = update_target st2
             in Inr (st3, l_a1, l_c1, l_c2)))"

fun updates ::
  "nat \<Rightarrow> 'o networks \<Rightarrow> (nat \<Rightarrow> nat \<Rightarrow> nat list) \<Rightarrow> (nat \<Rightarrow> nat \<Rightarrow> real) \<Rightarrow> (nat \<Rightarrow> nat \<Rightarrow> real) \<Rightarrow>
   'o sac \<Rightarrow> error + 'o sac" where
  \<comment> \<open>\<open>n\<close> calls of \<^verbatim>\<open>update()\<close> in a row, stopping at the first that raises\<close>
  "updates 0 nets rng noise_c noise_a st = Inr st"
| "updates (Suc n) nets rng noise_c noise_a st =
     (case update nets rng noise_c noise_a st of
        Inl x \<Rightarrow> Inl x
      | Inr (st1, losses) \<Rightarrow> updates n nets rng noise_c noise_a st1)"

section \<open>Trainer (algo.py)\<close>

text \<open>
  The trainer holds references to environment objects; the objects live in a store, a map
  from references to environment states, so that two fields holding the same reference
  share the object.
\<close>

type_synonym 'e store = "nat \<Rightarrow> 'e"

record 'o trainer =
  env :: nat
  env_test :: nat
  algo :: "'o sac"
  returns_step :: "int list"
  returns_return :: "real list"
  num_steps :: int
  eval_interval :: int
  num_eval_episodes :: nat
  eval_id :: nat

definition Trainer_init ::
  "'e env_ops \<Rightarrow> 'e store \<Rightarrow> nat \<Rightarrow> 'o sac \<Rightarrow> int \<Rightarrow> int \<Rightarrow> int \<Rightarrow> nat \<Rightarrow> 'o trainer \<times> 'e store" where
  "Trainer_init ops h env0 algo0 seed num_steps0 eval_interval0 num_eval_episodes0 =
     (let tr = \<lparr>env = env0, env_test = env0, algo = algo0,
                returns_step = [], returns_return = [],
                num_steps = num_steps0, eval_interval = eval_interval0,
                num_eval_episodes = num_eval_episodes0, eval_id = 0\<rparr>
      in (tr, h(env tr := env_seed ops seed (h (env tr)))))"

fun run_episode ::
  "nat \<Rightarrow> 'e env_ops \<Rightarrow> 'o networks \<Rightarrow> 'o sac \<Rightarrow> vec \<Rightarrow> real \<Rightarrow> 'e \<Rightarrow> (real \<times> 'e) option" where
  \<comment> \<open>the \<^verbatim>\<open>while (not done)\<close> loop of \<^verbatim>\<open>evaluate\<close>; the first argument bounds the
      number of iterations, \<open>None\<close> when the episode has not ended within it\<close>
  "run_episode 0 ops nets st s episode_return e = None"
| "run_episode (Suc n) ops nets st s episode_return e =
     (let act = exploit nets st s;
          ((s1, rew, done), e1) = env_step ops act (Some True) e;
          episode_return1 = episode_return + rew
      in if done then Some (episode_return1, e1)
         else run_episode n ops nets st s1 episode_return1 e1)"

fun eval_episodes ::
  "nat \<Rightarrow> nat \<Rightarrow> 'e env_ops \<Rightarrow> 'o networks \<Rightarrow> 'o trainer \<Rightarrow> 'e store \<Rightarrow> real list \<Rightarrow> real \<Rightarrow>
   ((real list \<times> real) \<times> 'e store) option" where
  \<comment> \<open>the \<^verbatim>\<open>for _ in range(self.num_eval_episodes)\<close> loop of \<^verbatim>\<open>evaluate\<close>\<close>
  "eval_episodes fuel 0 ops nets tr h rets ave_rew = Some ((rets, ave_rew), h)"
| "eval_episodes fuel (Suc k) ops nets tr h rets ave_rew =
     (let (s0, e0) = env_reset ops (h (env_test tr))
      in case run_episode fuel ops nets (algo tr) s0 0 e0 of
           None \<Rightarrow> None
         | Some (episode_return, e1) \<Rightarrow>
             eval_episodes fuel k ops nets tr (h(env_test tr := e1))
               (rets @ [episode_return]) (ave_rew + episode_return))"

definition evaluate ::
  "nat \<Rightarrow> 'e env_ops \<Rightarrow> 'o networks \<Rightarrow> 'o trainer \<Rightarrow> 'e store \<Rightarrow> int \<Rightarrow>
   (error + (real \<times> 'o trainer \<times> 'e store)) option" where
  "evaluate fuel ops nets tr h steps =
     (case eval_episodes fuel (num_eval_episodes tr) ops nets tr h [] 0 of
        None \<Rightarrow> None
      | Some ((rets, ave_rew), h1) \<Rightarrow>
          if num_eval_episodes tr = 0 then Some (Inl ZeroDivisionError)
          else
            (let ave_rew1 = ave_rew / real (num_eval_episodes tr);
                 mean_return = mean_list rets;
                 tr1 = tr\<lparr>returns_step := returns_step tr @ [steps],
                          returns_return := returns_return tr @ [mean_return]\<rparr>;
                 h2 = h1(env_test tr := generate_mp4 ops (h1 (env_test tr)))
             in Some (Inr (ave_rew1, tr1, h2))))"


type_synonym ('o, 'e) config = "'o trainer \<times> 'e store \<times> vec \<times> int"




section \<open>A small concrete instance\<close>

text \<open>
  An environment whose state counts the steps of the episode and whose episodes end at the
  second step, constant networks, and an algorithm instance with warm-up threshold 5.
\<close>

definition demo_env :: "nat env_ops" where
  "demo_env =
     \<lparr>env_reset = (\<lambda>e. ([0], 0)),
      env_step = (\<lambda>a flag e. (([real (Suc e)], 1, 2 \<le> Suc e), Suc e)),
      action_space_sample = (\<lambda>e. ([1 / 2], e)),
      env_seed = (\<lambda>sd e. e),
      generate_mp4 = (\<lambda>e. e)\<rparr>"

definition demo_nets :: "unit networks" where
  "demo_nets =
     \<lparr>actor_net = (\<lambda>p s. ([0], [0])),
      critic_net = (\<lambda>p s a. (1, 2)),
      actor_backward = (\<lambda>pa pc al states noise. []),
      critic_backward = (\<lambda>pc states acts tq. []),
      optim_step = (\<lambda>opt grads p. (p, opt))\<rparr>"

definition demo_sac :: "unit sac" where
  "demo_sac = SAC_init [] [[1, 2]] [[5, 6]] () () 1 (99 / 100) (3 / 10000) 10 5 (5 / 1000) (1 / 10) 1"

definition demo_noise :: "nat \<Rightarrow> nat \<Rightarrow> real" where
  "demo_noise i j = 0"

definition demo_rng :: "nat \<Rightarrow> nat \<Rightarrow> nat list" where
  "demo_rng n k = [0..<k]"

definition demo_sac1 :: "unit sac" where
  "demo_sac1 = fst (snd (step demo_env demo_nets demo_noise demo_sac 0 [0] 0 3))"



definition demo_grad :: real where
  \<comment> \<open>the gradient of the entropy loss in \<open>alpha\<close> at the instance: minus the sum of
      \<open>min_alpha = 0.1\<close> and the log-probability of the action \<open>tanh 0\<close> under the
      standard normal policy\<close>
  "demo_grad = ln (sqrt (2 * pi)) + ln (1000001 / 1000000) - 1 / 10"

definition demo_inv :: "nat \<Rightarrow> unit sac \<Rightarrow> bool" where
  \<comment> \<open>what \<open>k\<close> learning steps make of \<open>demo_sac1\<close>: the same buffer, \<open>alpha\<close> lowered
      \<open>k\<close> times by the same amount, the moment estimates of Adam under a constant gradient\<close>
  "demo_inv k st =
     (buffer st = buffer demo_sac1 \<and> batch_size st = 1 \<and>
      min_alpha st = \<lparr>sval = 1 / 10, sgrad = False\<rparr> \<and>
      step_count (optim_alpha st) = k \<and>
      exp_avg (optim_alpha st) = (1 - (9 / 10) ^ k) * demo_grad \<and>
      exp_avg_sq (optim_alpha st) = (1 - (999 / 1000) ^ k) * demo_grad\<^sup>2 \<and>
      lr (optim_alpha st) = 3 / 10000 \<and> eps (optim_alpha st) = 1 / 10 ^ 8 \<and>
      beta1 (optim_alpha st) = 9 / 10 \<and> beta2 (optim_alpha st) = 999 / 1000 \<and>
      sval (alpha st) = 3 / 10 - real k * (3 / 10000 * (demo_grad / (demo_grad + 1 / 10 ^ 8))))"


definition demo_sac2 :: "unit sac" where
  "demo_sac2 = SAC_init [] [[1, 2]] [[5, 6]] () () 10 (99 / 100) (3 / 10000) 10 1 (5 / 1000) (1 / 10) 1"

definition demo_trainer :: "unit trainer" where
  "demo_trainer = fst (Trainer_init demo_env (\<lambda>r. 0) 0 demo_sac2 0 3 100 1)"


definition demo_config1 :: "(unit, nat) config" where
  \<comment> \<open>the configuration after the first iteration of the loop\<close>
  "demo_config1 =
     (demo_trainer\<lparr>algo := fst (snd (step demo_env demo_nets demo_noise demo_sac2 0 [0] 0 1))\<rparr>,
      (\<lambda>r. 0)(0 := 1), [1], 1)"

section \<open>Evaluation rules\<close>

lemmas tensor_defs = from_rows_def t_map_def t_zip_def t_scal_def t_sum_last_def t_mean_def
  s_neg_def s_detach_def t_randn_like_def

lemmas demo_defs = demo_env_def demo_nets_def demo_sac_def demo_noise_def SAC_init_def
  ReplayBuffer_def load_state_dict_def Adam_def

section \<open>Warm-up gating and the environment step\<close>

lemma last_pfrl_append: "0 < capacity b \<Longrightarrow> last (memory (pfrl_append b x)) = [x]"
  by (cases "memory b") (auto simp: pfrl_append_def Let_def)

lemma step_unfold:
  assumes "select_action ops nets noise st e s steps = (act, e1)"
    and "env_step ops act None e1 = ((n_state, rew, done), e2)"
  shows "step ops nets noise st e s t steps =
           (if done
            then ((fst (env_reset ops e2), 0),
                  st\<lparr>total_rew := 0, buffer := append_rb (buffer st) s act rew done n_state\<rparr>,
                  snd (env_reset ops e2))
            else ((n_state, t + 1),
                  st\<lparr>total_rew := total_rew st + rew,
                     buffer := append_rb (buffer st) s act rew done n_state\<rparr>, e2))"
  using assms by (simp add: step_def Let_def split: prod.splits)







lemma step_start_steps:
  "start_steps (fst (snd (step ops nets noise st e s t steps))) = start_steps st"
  "batch_size (fst (snd (step ops nets noise st e s t steps))) = batch_size st"
  by (simp_all add: step_def Let_def split: prod.splits)


lemma evaluate_algo:
  assumes "evaluate fuel ops nets tr h steps = Some (Inr (r, tr1, h1))"
  shows "algo tr1 = algo tr" "env tr1 = env tr" "env_test tr1 = env_test tr"
  using assms by (auto simp: evaluate_def Let_def split: option.splits prod.splits if_splits)




lemma update_buffer:
  assumes "update nets rng noise_c noise_a st = Inr (st1, losses)"
  shows "buffer st1 = buffer st"
  using assms
  by (auto simp: update_def Let_def update_critic_def update_actor_def entropy_adjust_func_def
      update_target_def split: sum.splits prod.splits)





text \<open>
  Claim C10. Let \<open>act\<close> be the action \<open>SAC.step\<close> selects and \<open>(n_state, rew, done)\<close> what
  the environment returns for it. The transition appended to the replay buffer is
  \<open>(state, act, rew, done, n_state)\<close>, so it holds the terminal next state when \<open>done\<close>
  (with a buffer of positive capacity it is the last stored entry). When \<open>done\<close> the step
  resets the environment and returns the reset observation with episode counter 0; otherwise
  it returns \<open>n_state\<close> with counter \<open>t + 1\<close>.
\<close>

theorem step_episode_end:
  assumes "select_action ops nets noise st e s steps = (act, e1)"
    and "env_step ops act None e1 = ((n_state, rew, done), e2)"
  shows "buffer (fst (snd (step ops nets noise st e s t steps)))
           = append_rb (buffer st) s act rew done n_state \<and>
         (0 < capacity (buf (buffer st)) \<longrightarrow>
            last (memory (buf (buffer (fst (snd (step ops nets noise st e s t steps))))))
              = [\<lparr>exp_state = s, exp_action = act, exp_reward = [rew], exp_next_state = n_state,
                  is_state_terminal = done\<rparr>]) \<and>
         (done \<longrightarrow> fst (step ops nets noise st e s t steps) = (fst (env_reset ops e2), 0) \<and>
                    snd (snd (step ops nets noise st e s t steps)) = snd (env_reset ops e2)) \<and>
         (\<not> done \<longrightarrow> fst (step ops nets noise st e s t steps) = (n_state, t + 1) \<and>
                    snd (snd (step ops nets noise st e s t steps)) = e2)"
proof -
  note u = step_unfold [OF assms, of t]
  have b: "buffer (fst (snd (step ops nets noise st e s t steps)))
             = append_rb (buffer st) s act rew done n_state"
    by (simp add: u)
  have l: "0 < capacity (buf (buffer st)) \<Longrightarrow>
      last (memory (buf (append_rb (buffer st) s act rew done n_state)))
        = [\<lparr>exp_state = s, exp_action = act, exp_reward = [rew], exp_next_state = n_state,
            is_state_terminal = done\<rparr>]"
    by (simp add: append_rb_def last_pfrl_append)
  show ?thesis
    using l by (simp add: b) (simp add: u)
qed

text \<open>The theorem of C10 at the concrete instance: a step that ends the episode, and one that does not.\<close>

theorem step_episode_end_witness:
  "fst (step demo_env demo_nets demo_noise demo_sac 1 [1] 1 3) = ([0], 0) \<and>
   snd (snd (step demo_env demo_nets demo_noise demo_sac 1 [1] 1 3)) = 0 \<and>
   last (memory (buf (buffer (fst (snd (step demo_env demo_nets demo_noise demo_sac 1 [1] 1 3))))))
     = [\<lparr>exp_state = [1], exp_action = [1 / 2], exp_reward = [1], exp_next_state = [2],
         is_state_terminal = True\<rparr>] \<and>
   fst (step demo_env demo_nets demo_noise demo_sac 0 [0] 0 3) = ([1], 1) \<and>
   snd (snd (step demo_env demo_nets demo_noise demo_sac 0 [0] 0 3)) = 1"
  using step_episode_end [of demo_env demo_nets demo_noise demo_sac 1 "[1]" 3 "[1 / 2]" 1
                             "[2]" 1 True 2 1]
        step_episode_end [of demo_env demo_nets demo_noise demo_sac 0 "[0]" 3 "[1 / 2]" 0
                             "[1]" 1 False 1 0]
  by (simp add: select_action_def step_def Let_def append_rb_def pfrl_append_def demo_defs)

section \<open>Target critic\<close>

lemma update_unfold:
  assumes "sample rng (buffer st) (batch_size st) = Inr b"
  shows "update nets rng noise_c noise_a st =
           Inr (update_target
                  (fst (update_actor nets noise_a
                     (fst (update_critic nets noise_c (st\<lparr>learning_steps := learning_steps st + 1\<rparr>)
                            (b_states b) (b_acts b) (b_rews b) (b_dones b) (b_n_states b)))
                     (b_states b))),
                snd (update_actor nets noise_a
                     (fst (update_critic nets noise_c (st\<lparr>learning_steps := learning_steps st + 1\<rparr>)
                            (b_states b) (b_acts b) (b_rews b) (b_dones b) (b_n_states b)))
                     (b_states b)),
                snd (update_critic nets noise_c (st\<lparr>learning_steps := learning_steps st + 1\<rparr>)
                            (b_states b) (b_acts b) (b_rews b) (b_dones b) (b_n_states b)))"
  using assms by (simp add: update_def Let_def split: prod.splits)

lemma update_critic_frame:
  "critic_target (fst (update_critic nets noise st states acts rews dones n_states)) = critic_target st"
  "tau (fst (update_critic nets noise st states acts rews dones n_states)) = tau st"
  "actor (fst (update_critic nets noise st states acts rews dones n_states)) = actor st"
  "alpha (fst (update_critic nets noise st states acts rews dones n_states)) = alpha st"
  by (simp_all add: update_critic_def Let_def split: prod.splits)

lemma entropy_adjust_frame:
  "critic_target (entropy_adjust_func st lp) = critic_target st"
  "critic (entropy_adjust_func st lp) = critic st"
  "actor (entropy_adjust_func st lp) = actor st"
  "tau (entropy_adjust_func st lp) = tau st"
  by (simp_all add: entropy_adjust_func_def Let_def split: prod.splits)

lemma update_actor_frame:
  "critic_target (fst (update_actor nets noise st states)) = critic_target st"
  "critic (fst (update_actor nets noise st states)) = critic st"
  "tau (fst (update_actor nets noise st states)) = tau st"
  by (simp_all add: update_actor_def Let_def entropy_adjust_frame split: prod.splits)

lemma step_frame:
  "critic_target (fst (snd (step ops nets noise st e s t steps))) = critic_target st"
  by (simp add: step_def Let_def split: prod.splits)

lemma map2_same_shape:
  "map length xs = map length ys \<Longrightarrow> length xs = length ys"
  by (metis length_map)

lemma soft_update_rows:
  assumes "map length targets = map length traineds"
  shows "soft_update tau0 targets traineds =
           map2 (map2 (\<lambda>x y. (1 - tau0) * x + tau0 * y)) targets traineds"
proof -
  have "length targets = length traineds" using assms by (rule map2_same_shape)
  then show ?thesis by (simp add: soft_update_def mult.commute)
qed

lemma map2_snd_same: "length xs = length ys \<Longrightarrow> map2 (\<lambda>x y. y) xs ys = ys"
  by (induction xs ys rule: list_induct2) auto

lemma map2_fst_same: "length xs = length ys \<Longrightarrow> map2 (\<lambda>x y. x) xs ys = xs"
  by (induction xs ys rule: list_induct2) auto

lemma soft_update_one:
  "map length targets = map length traineds \<Longrightarrow> soft_update 1 targets traineds = traineds"
proof (induction targets arbitrary: traineds)
  case Nil
  then show ?case by (simp add: soft_update_def)
next
  case (Cons t ts)
  then obtain r rs where r: "traineds = r # rs" by (cases traineds) auto
  with Cons.prems have l: "length t = length r" and m: "map length ts = map length rs" by auto
  have "soft_update 1 ts rs = rs" using Cons.IH [OF m] .
  moreover have "length ts = length rs" using m by (rule map2_same_shape)
  ultimately show ?case using l r by (simp add: soft_update_def map2_snd_same)
qed

lemma soft_update_zero:
  "map length targets = map length traineds \<Longrightarrow> soft_update 0 targets traineds = targets"
proof (induction targets arbitrary: traineds)
  case Nil
  then show ?case by (simp add: soft_update_def)
next
  case (Cons t ts)
  then obtain r rs where r: "traineds = r # rs" by (cases traineds) auto
  with Cons.prems have l: "length t = length r" and m: "map length ts = map length rs" by auto
  have "soft_update 0 ts rs = ts" using Cons.IH [OF m] .
  moreover have "length ts = length rs" using m by (rule map2_same_shape)
  ultimately show ?case using l r by (simp add: soft_update_def map2_fst_same)
qed

lemma demo_sample:
  "sample demo_rng (buffer demo_sac1) (batch_size demo_sac1) =
     Inr \<lparr>b_states = from_rows [[0]], b_acts = from_rows [[1 / 2]], b_rews = from_rows [[1]],
          b_dones = from_rows [[0]], b_n_states = from_rows [[1]]\<rparr>"
  by (simp add: demo_sac1_def demo_rng_def sample_def pfrl_sample_def first_of_def cat_reshape_def
      float_of_bool_def step_def select_action_def Let_def append_rb_def pfrl_append_def
      demo_env_def demo_sac_def SAC_init_def ReplayBuffer_def load_state_dict_def from_rows_def)

text \<open>
  Claim C5. At construction the target critic's parameters are a copy of the critic's. The
  environment step, the critic update, the actor update and the entropy step leave the target
  critic as it is; \<open>update_target\<close> replaces its parameters by the soft update, and after a
  whole \<open>update\<close> the target parameters are the soft update of the old ones towards the
  critic's new ones. On parameter lists of the same shapes the soft update is element-wise
  \<open>\<theta>' \<leftarrow> (1 - \<tau>) \<theta>' + \<tau> \<theta>\<close>; with \<open>\<tau> = 1\<close> it yields the critic's parameters, with
  \<open>\<tau> = 0\<close> the target's.
\<close>

theorem target_tracking:
  "params (critic_target (SAC_init a0 c0 t0 oa oc bs g0 lra bsz ss tau0 ma rs)) = c0 \<and>
   params (critic (SAC_init a0 c0 t0 oa oc bs g0 lra bsz ss tau0 ma rs)) = c0 \<and>
   critic_target (fst (snd (step ops nets noise st e s t steps))) = critic_target st \<and>
   critic_target (fst (update_critic nets noise st states acts rews dones n_states))
     = critic_target st \<and>
   critic_target (fst (update_actor nets noise st states)) = critic_target st \<and>
   critic_target (entropy_adjust_func st lp) = critic_target st \<and>
   critic_target (update_target st)
     = (critic_target st)\<lparr>params :=
          soft_update (tau st) (params (critic_target st)) (params (critic st))\<rparr> \<and>
   (\<forall>b. sample rng (buffer st) (batch_size st) = Inr b \<longrightarrow>
      (\<exists>st1 losses. update nets rng noise_c noise_a st = Inr (st1, losses) \<and>
         params (critic_target st1)
           = soft_update (tau st) (params (critic_target st)) (params (critic st1)))) \<and>
   (map length targets = map length traineds \<longrightarrow>
      soft_update tau1 targets traineds
        = map2 (map2 (\<lambda>x y. (1 - tau1) * x + tau1 * y)) targets traineds \<and>
      soft_update 1 targets traineds = traineds \<and>
      soft_update 0 targets traineds = targets)"
proof -
  have init: "params (critic_target (SAC_init a0 c0 t0 oa oc bs g0 lra bsz ss tau0 ma rs)) = c0 \<and>
      params (critic (SAC_init a0 c0 t0 oa oc bs g0 lra bsz ss tau0 ma rs)) = c0"
    by (simp add: SAC_init_def load_state_dict_def Let_def)
  have tgt: "critic_target (update_target st)
     = (critic_target st)\<lparr>params :=
          soft_update (tau st) (params (critic_target st)) (params (critic st))\<rparr>"
    by (simp add: update_target_def)
  have upd: "\<exists>st1 losses. update nets rng noise_c noise_a st = Inr (st1, losses) \<and>
         params (critic_target st1)
           = soft_update (tau st) (params (critic_target st)) (params (critic st1))"
    if "sample rng (buffer st) (batch_size st) = Inr b" for b
    using update_unfold [OF that, of nets noise_c noise_a]
    by (simp add: update_target_def update_actor_frame update_critic_frame)
  show ?thesis
    using init tgt upd soft_update_rows soft_update_one soft_update_zero
    by (simp add: step_frame update_critic_frame update_actor_frame entropy_adjust_frame)
qed

text \<open>The theorem of C5 at the concrete instance: one update on a buffer of one transition.\<close>

theorem target_tracking_witness:
  "(\<exists>st1 losses. update demo_nets demo_rng demo_noise demo_noise demo_sac1 = Inr (st1, losses) \<and>
      params (critic_target st1) = soft_update (tau demo_sac1) [[1, 2]] (params (critic st1))) \<and>
   soft_update (1 / 2) [[5, 6]] [[1, 2]] = [[3, 4]] \<and>
   soft_update 1 [[5, 6]] [[1, 2]] = [[1, 2]] \<and>
   soft_update 0 [[5, 6]] [[1, 2]] = [[5, 6]]"
proof -
  have p: "params (critic_target demo_sac1) = [[1, 2]]"
    by (simp add: demo_sac1_def step_frame) (simp add: demo_sac_def SAC_init_def load_state_dict_def)
  show ?thesis
    using target_tracking [where ?a0.0 = "[]" and ?c0.0 = "[[1, 2]]" and ?t0.0 = "[[5, 6]]"
        and oa = "()" and oc = "()" and bs = 1 and ?g0.0 = "99 / 100" and lra = "3 / 10000"
        and bsz = 10 and ss = 5 and ?tau0.0 = "5 / 1000" and ma = "1 / 10" and rs = 1
        and ops = demo_env and nets = demo_nets and noise = demo_noise and st = demo_sac1
        and e = 0 and s = "[0]" and t = 0 and steps = 3
        and states = "from_rows [[0]]" and acts = "from_rows [[1 / 2]]"
        and rews = "from_rows [[1]]" and dones = "from_rows [[0]]"
        and n_states = "from_rows [[1]]" and lp = "from_rows [[- 1]]"
        and rng = demo_rng and noise_c = demo_noise and noise_a = demo_noise
        and targets = "[[5, 6]]" and traineds = "[[1, 2]]" and ?tau1.0 = "1 / 2"]
    by (simp add: demo_sample p)
qed

section \<open>Entropy coefficient\<close>

lemma concat_map_map: "concat (map (map f) xss) = map f (concat xss)"
  by (induction xss) auto

lemma sum_list_scale: "sum_list (map (\<lambda>x. (c::real) * f x) xs) = c * sum_list (map f xs)"
  by (induction xs) (auto simp: algebra_simps)

lemma entropy_loss_value:
  "sval (entropy_loss st lp) =
     - mean_list (map (\<lambda>x. sval (alpha st) * (x + sval (min_alpha st))) (concat (rows lp)))"
  by (simp add: entropy_loss_def entropy_detached_def Let_def s_neg_def t_mean_def t_scal_def
      concat_map_map o_def)

lemma entropy_loss_linear:
  "sval (entropy_loss st lp) = sval (alpha st) * entropy_grad st lp"
  by (simp add: entropy_loss_def entropy_grad_def entropy_detached_def Let_def s_neg_def
      t_mean_def t_scal_def concat_map_map mean_list_def sum_list_scale o_def)

lemma entropy_grad_alpha: "entropy_grad (st\<lparr>alpha := a\<rparr>) lp = entropy_grad st lp"
  by (simp add: entropy_grad_def entropy_detached_def t_scal_def)

lemma entropy_grad_is_derivative:
  "((\<lambda>a. sval (entropy_loss (st\<lparr>alpha := \<lparr>sval = a, sgrad = True\<rparr>\<rparr>) lp))
      has_real_derivative entropy_grad st lp) (at a0)"
proof -
  have "((\<lambda>a. a * entropy_grad st lp) has_real_derivative entropy_grad st lp) (at a0)"
    by (auto intro!: derivative_eq_intros)
  then show ?thesis by (simp add: entropy_loss_linear entropy_grad_alpha)
qed

lemma entropy_adjust_unfold:
  "entropy_adjust_func st lp =
     st\<lparr>alpha := (alpha st)\<lparr>sval := fst (adam_step (optim_alpha st) (entropy_grad st lp)
                                       (sval (alpha st)))\<rparr>,
        optim_alpha := snd (adam_step (optim_alpha st) (entropy_grad st lp) (sval (alpha st)))\<rparr>"
  by (simp add: entropy_adjust_func_def Let_def split: prod.splits)

lemma update_actor_entropy:
  "\<exists>p opt. fst (update_actor nets noise st states) =
     entropy_adjust_func (st\<lparr>actor := (actor st)\<lparr>params := p\<rparr>, optim_actor := opt\<rparr>)
       (snd (actor_loss_func nets noise st states))"
  by (simp add: update_actor_def Let_def split: prod.splits) blast

lemma entropy_loss_sgrad: "sgrad (entropy_loss st lp) = sgrad (alpha st)"
  by (simp add: entropy_loss_def entropy_detached_def Let_def s_neg_def t_mean_def t_scal_def)

lemma entropy_detached_no_grad: "\<not> requires_grad (entropy_detached st lp)"
  by (simp add: entropy_detached_def t_scal_def)

lemma adam_step_count: "step_count (snd (adam_step opt g p)) = step_count opt + 1"
  by (simp add: adam_step_def Let_def)

lemma adam_first_step:
  "fst (adam_step (Adam l) g p) = p - l * (g / (\<bar>g\<bar> + 1 / 10 ^ 8))"
proof -
  define D where "D = \<bar>g\<bar> + 1 / 10 ^ 8"
  have s: "sqrt (g\<^sup>2 / 1000) / sqrt (1 / 1000) = \<bar>g\<bar>"
    by (simp add: real_sqrt_divide)
  have "fst (adam_step (Adam l) g p) = p - l / (1 / 10) * (g / 10 / D)"
    unfolding D_def s [symmetric] by (simp add: adam_step_def Adam_def Let_def)
  also have "\<dots> = p - l * (g / D)" by simp
  finally show ?thesis unfolding D_def .
qed

lemma entropy_grad_cong:
  "min_alpha st1 = min_alpha st \<Longrightarrow> entropy_grad st1 lp = entropy_grad st lp"
  by (simp add: entropy_grad_def entropy_detached_def)

lemma actor_loss_log_pis:
  "snd (actor_loss_func nets noise st states)
     = snd (sample_stochastic nets True noise (actor st) states)"
  by (simp add: actor_loss_func_def Let_def split: prod.splits)

lemma update_actor_alpha:
  "alpha (fst (update_actor nets noise st states))
     = (alpha st)\<lparr>sval := fst (adam_step (optim_alpha st)
          (entropy_grad st (snd (sample_stochastic nets True noise (actor st) states)))
          (sval (alpha st)))\<rparr>"
  "optim_alpha (fst (update_actor nets noise st states))
     = snd (adam_step (optim_alpha st)
          (entropy_grad st (snd (sample_stochastic nets True noise (actor st) states)))
          (sval (alpha st)))"
  "min_alpha (fst (update_actor nets noise st states)) = min_alpha st"
proof -
  obtain p opt where u: "fst (update_actor nets noise st states) =
     entropy_adjust_func (st\<lparr>actor := (actor st)\<lparr>params := p\<rparr>, optim_actor := opt\<rparr>)
       (snd (actor_loss_func nets noise st states))"
    using update_actor_entropy [of nets noise st states] by blast
  have g: "entropy_grad (st\<lparr>actor := (actor st)\<lparr>params := p\<rparr>, optim_actor := opt\<rparr>) lp
             = entropy_grad st lp" for lp
    by (rule entropy_grad_cong) simp
  show "alpha (fst (update_actor nets noise st states))
     = (alpha st)\<lparr>sval := fst (adam_step (optim_alpha st)
          (entropy_grad st (snd (sample_stochastic nets True noise (actor st) states)))
          (sval (alpha st)))\<rparr>"
    unfolding u entropy_adjust_unfold g actor_loss_log_pis by simp
  show "optim_alpha (fst (update_actor nets noise st states))
     = snd (adam_step (optim_alpha st)
          (entropy_grad st (snd (sample_stochastic nets True noise (actor st) states)))
          (sval (alpha st)))"
    unfolding u entropy_adjust_unfold g actor_loss_log_pis by simp
  show "min_alpha (fst (update_actor nets noise st states)) = min_alpha st"
    unfolding u entropy_adjust_unfold by simp
qed

lemma update_critic_alpha:
  "optim_alpha (fst (update_critic nets noise st states acts rews dones n_states)) = optim_alpha st"
  "min_alpha (fst (update_critic nets noise st states acts rews dones n_states)) = min_alpha st"
  by (simp_all add: update_critic_def Let_def split: prod.splits)

lemma update_alpha:
  assumes "sample rng (buffer st) (batch_size st) = Inr b"
  shows "\<exists>st1 losses. update nets rng noise_c noise_a st = Inr (st1, losses) \<and>
     alpha st1 = (alpha st)\<lparr>sval := fst (adam_step (optim_alpha st)
          (entropy_grad st (snd (sample_stochastic nets True noise_a (actor st) (b_states b))))
          (sval (alpha st)))\<rparr> \<and>
     optim_alpha st1 = snd (adam_step (optim_alpha st)
          (entropy_grad st (snd (sample_stochastic nets True noise_a (actor st) (b_states b))))
          (sval (alpha st))) \<and>
     min_alpha st1 = min_alpha st"
proof -
  define st0 where "st0 = st\<lparr>learning_steps := learning_steps st + 1\<rparr>"
  define stc where "stc = fst (update_critic nets noise_c st0
                            (b_states b) (b_acts b) (b_rews b) (b_dones b) (b_n_states b))"
  have c: "alpha stc = alpha st" "optim_alpha stc = optim_alpha st" "min_alpha stc = min_alpha st"
    "actor stc = actor st"
    by (simp_all add: stc_def st0_def update_critic_frame update_critic_alpha)
  have g: "entropy_grad stc lp = entropy_grad st lp" for lp
    by (rule entropy_grad_cong) (rule c(3))
  show ?thesis
    unfolding update_unfold [OF assms] st0_def [symmetric] stc_def [symmetric]
    by (simp add: update_target_def update_actor_alpha g c)
qed


lemma demo_sac1_alpha:
  "alpha demo_sac1 = \<lparr>sval = 3 / 10, sgrad = True\<rparr>"
  "optim_alpha demo_sac1 = Adam (3 / 10000)"
  "min_alpha demo_sac1 = \<lparr>sval = 1 / 10, sgrad = False\<rparr>"
  "actor demo_sac1 = \<lparr>params = [], trainable = True\<rparr>"
  by (simp_all add: demo_sac1_def step_def select_action_def Let_def demo_defs)

lemma demo_entropy_grad:
  "entropy_grad demo_sac1
     (snd (sample_stochastic demo_nets True demo_noise (actor demo_sac1) (from_rows [[0]])))
   = demo_grad"
  by (simp add: entropy_grad_def entropy_detached_def mean_list_def demo_sac1_alpha demo_grad_def
      sample_stochastic_def actor_forward_def reparameterize_def calc_log_pi_def
      normal_log_prob_def tensor_defs demo_nets_def demo_noise_def Let_def)

text \<open>
  Claim C3. \<open>alpha\<close> starts at three times \<open>min_alpha\<close>, tracked by autograd, above
  \<open>min_alpha\<close> when \<open>min_alpha > 0\<close>. The entropy loss is
  \<open>- mean (alpha * (log_pi + min_alpha))\<close>; the factor \<open>log_pi + min_alpha\<close> is computed
  without gradient whatever the log-probabilities carry, the loss is tracked exactly when
  \<open>alpha\<close> is, and the gradient is its derivative in \<open>alpha\<close>. \<open>entropy_adjust_func\<close>
  is one Adam step on \<open>alpha\<close> (the step counter of the optimizer goes up by one) and
  changes nothing else but the optimizer's own state; from the initial state the step moves
  \<open>alpha\<close> to \<open>3 min_alpha - lr g / (\<bar>g\<bar> + 1e-8)\<close>, \<open>g\<close> the gradient. The actor update
  calls it with the log-probabilities of its own actor loss, which are those of the policy's
  gradient-carrying sample at the batch states. Every learning step, that is every \<open>update\<close>
  that gets its batch, makes exactly this one Adam step on \<open>alpha\<close> with the gradient at
  these log-probabilities, and leaves \<open>min_alpha\<close> as it is.
\<close>

theorem entropy_coefficient_update:
  "sval (alpha (SAC_init a0 c0 t0 oa oc bs g0 lra bsz ss tau0 ma rs)) = 3 * ma \<and>
   sgrad (alpha (SAC_init a0 c0 t0 oa oc bs g0 lra bsz ss tau0 ma rs)) \<and>
   sval (min_alpha (SAC_init a0 c0 t0 oa oc bs g0 lra bsz ss tau0 ma rs)) = ma \<and>
   (0 < ma \<longrightarrow> sval (min_alpha (SAC_init a0 c0 t0 oa oc bs g0 lra bsz ss tau0 ma rs))
                  < sval (alpha (SAC_init a0 c0 t0 oa oc bs g0 lra bsz ss tau0 ma rs))) \<and>
   sval (entropy_loss st lp) =
     - mean_list (map (\<lambda>x. sval (alpha st) * (x + sval (min_alpha st))) (concat (rows lp))) \<and>
   \<not> requires_grad (entropy_detached st lp) \<and>
   sgrad (entropy_loss st lp) = sgrad (alpha st) \<and>
   ((\<lambda>a. sval (entropy_loss (st\<lparr>alpha := \<lparr>sval = a, sgrad = True\<rparr>\<rparr>) lp))
      has_real_derivative entropy_grad st lp) (at a1) \<and>
   entropy_adjust_func st lp =
     st\<lparr>alpha := (alpha st)\<lparr>sval := fst (adam_step (optim_alpha st) (entropy_grad st lp)
                                       (sval (alpha st)))\<rparr>,
        optim_alpha := snd (adam_step (optim_alpha st) (entropy_grad st lp) (sval (alpha st)))\<rparr> \<and>
   step_count (optim_alpha (entropy_adjust_func st lp)) = step_count (optim_alpha st) + 1 \<and>
   sval (alpha (entropy_adjust_func (SAC_init a0 c0 t0 oa oc bs g0 lra bsz ss tau0 ma rs) lp))
     = 3 * ma - lra * (entropy_grad (SAC_init a0 c0 t0 oa oc bs g0 lra bsz ss tau0 ma rs) lp
                        / (\<bar>entropy_grad (SAC_init a0 c0 t0 oa oc bs g0 lra bsz ss tau0 ma rs) lp\<bar>
                             + 1 / 10 ^ 8)) \<and>
   (\<exists>p opt. fst (update_actor nets noise st states) =
      entropy_adjust_func (st\<lparr>actor := (actor st)\<lparr>params := p\<rparr>, optim_actor := opt\<rparr>)
        (snd (actor_loss_func nets noise st states))) \<and>
   snd (actor_loss_func nets noise st states)
     = snd (sample_stochastic nets True noise (actor st) states) \<and>
   (\<forall>b. sample rng (buffer st) (batch_size st) = Inr b \<longrightarrow>
      (\<exists>st1 losses. update nets rng noise_c noise_a st = Inr (st1, losses) \<and>
         alpha st1 = (alpha st)\<lparr>sval := fst (adam_step (optim_alpha st)
              (entropy_grad st (snd (sample_stochastic nets True noise_a (actor st) (b_states b))))
              (sval (alpha st)))\<rparr> \<and>
         optim_alpha st1 = snd (adam_step (optim_alpha st)
              (entropy_grad st (snd (sample_stochastic nets True noise_a (actor st) (b_states b))))
              (sval (alpha st))) \<and>
         step_count (optim_alpha st1) = step_count (optim_alpha st) + 1 \<and>
         min_alpha st1 = min_alpha st))"
proof -
  have i: "sval (alpha (SAC_init a0 c0 t0 oa oc bs g0 lra bsz ss tau0 ma rs)) = 3 * ma"
    "sgrad (alpha (SAC_init a0 c0 t0 oa oc bs g0 lra bsz ss tau0 ma rs))"
    "sval (min_alpha (SAC_init a0 c0 t0 oa oc bs g0 lra bsz ss tau0 ma rs)) = ma"
    "optim_alpha (SAC_init a0 c0 t0 oa oc bs g0 lra bsz ss tau0 ma rs) = Adam lra"
    by (simp_all add: SAC_init_def Let_def)
  have c: "step_count (optim_alpha (entropy_adjust_func st lp)) = step_count (optim_alpha st) + 1"
    by (simp add: entropy_adjust_unfold adam_step_count)
  have f: "sval (alpha (entropy_adjust_func (SAC_init a0 c0 t0 oa oc bs g0 lra bsz ss tau0 ma rs) lp))
     = 3 * ma - lra * (entropy_grad (SAC_init a0 c0 t0 oa oc bs g0 lra bsz ss tau0 ma rs) lp
                        / (\<bar>entropy_grad (SAC_init a0 c0 t0 oa oc bs g0 lra bsz ss tau0 ma rs) lp\<bar>
                             + 1 / 10 ^ 8))"
    by (simp add: entropy_adjust_unfold i adam_first_step)
  have u: "\<exists>st1 losses. update nets rng noise_c noise_a st = Inr (st1, losses) \<and>
         alpha st1 = (alpha st)\<lparr>sval := fst (adam_step (optim_alpha st)
              (entropy_grad st (snd (sample_stochastic nets True noise_a (actor st) (b_states b))))
              (sval (alpha st)))\<rparr> \<and>
         optim_alpha st1 = snd (adam_step (optim_alpha st)
              (entropy_grad st (snd (sample_stochastic nets True noise_a (actor st) (b_states b))))
              (sval (alpha st))) \<and>
         step_count (optim_alpha st1) = step_count (optim_alpha st) + 1 \<and>
         min_alpha st1 = min_alpha st"
    if "sample rng (buffer st) (batch_size st) = Inr b" for b
    using update_alpha [OF that, of nets noise_c noise_a] by (auto simp: adam_step_count)
  from i(1-3) c f u entropy_detached_no_grad [of st lp] entropy_loss_sgrad [of st lp]
    entropy_loss_value [of st lp] entropy_grad_is_derivative [of st lp a1]
    entropy_adjust_unfold [of st lp] update_actor_entropy [of nets noise st states]
    actor_loss_log_pis [of nets noise st states]
  show ?thesis by (intro conjI impI allI) simp_all
qed

text \<open>
  The theorem of C3 at the concrete instance, where \<open>min_alpha = 0.1 > 0\<close>: the initial
  values, and one learning step on a buffer of one transition.
\<close>

theorem entropy_coefficient_update_witness:
  "(0::real) < 1 / 10 \<and>
   sval (alpha demo_sac) = 3 / 10 \<and> sval (min_alpha demo_sac) < sval (alpha demo_sac) \<and>
   sample demo_rng (buffer demo_sac1) (batch_size demo_sac1) =
     Inr \<lparr>b_states = from_rows [[0]], b_acts = from_rows [[1 / 2]], b_rews = from_rows [[1]],
          b_dones = from_rows [[0]], b_n_states = from_rows [[1]]\<rparr> \<and>
   (\<exists>st1 losses. update demo_nets demo_rng demo_noise demo_noise demo_sac1 = Inr (st1, losses) \<and>
      sval (alpha st1) = 3 / 10 - 3 / 10000 * (demo_grad / (\<bar>demo_grad\<bar> + 1 / 10 ^ 8)) \<and>
      step_count (optim_alpha st1) = 1)"
proof -
  have a: "fst (adam_step (Adam (3 / 10000)) demo_grad (3 / 10))
             = 3 / 10 - 3 / 10000 * (demo_grad / (\<bar>demo_grad\<bar> + 1 / 10 ^ 8))"
    by (rule adam_first_step)
  have c: "step_count (Adam (3 / 10000)) = 0" by (simp add: Adam_def)
  show ?thesis
    using entropy_coefficient_update [where ?a0.0 = "[]" and ?c0.0 = "[[1, 2]]"
      and ?t0.0 = "[[5, 6]]" and oa = "()" and oc = "()" and bs = 1 and ?g0.0 = "99 / 100"
      and lra = "3 / 10000" and bsz = 10 and ss = 5 and ?tau0.0 = "5 / 1000" and ma = "1 / 10"
      and rs = 1 and st = demo_sac1 and lp = "from_rows [[- 1]]" and ?a1.0 = 0
      and nets = demo_nets and noise = demo_noise and states = "from_rows [[0]]"
      and rng = demo_rng and noise_c = demo_noise and noise_a = demo_noise]
    by (auto simp add: demo_sample demo_sac1_alpha(1-3) demo_entropy_grad a c demo_sac_def)
qed

section \<open>Sign of the entropy coefficient\<close>

lemma adam_const_grad_step:
  assumes g: "0 < g"
    and st: "step_count opt = n" "exp_avg opt = (1 - beta1 opt ^ n) * g"
      "exp_avg_sq opt = (1 - beta2 opt ^ n) * g\<^sup>2"
    and b: "0 < beta1 opt" "beta1 opt < 1" "0 < beta2 opt" "beta2 opt < 1"
  shows "fst (adam_step opt g p) = p - lr opt * (g / (g + eps opt))"
    and "step_count (snd (adam_step opt g p)) = Suc n"
    and "exp_avg (snd (adam_step opt g p)) = (1 - beta1 opt ^ Suc n) * g"
    and "exp_avg_sq (snd (adam_step opt g p)) = (1 - beta2 opt ^ Suc n) * g\<^sup>2"
    and "lr (snd (adam_step opt g p)) = lr opt" "eps (snd (adam_step opt g p)) = eps opt"
    and "beta1 (snd (adam_step opt g p)) = beta1 opt" "beta2 (snd (adam_step opt g p)) = beta2 opt"
proof -
  have p1: "beta1 opt ^ Suc n < 1" using b(1,2) by (rule power_Suc_less_one)
  have p2: "beta2 opt ^ Suc n < 1" using b(3,4) by (rule power_Suc_less_one)
  define c1 where "c1 = 1 - beta1 opt ^ Suc n"
  define c2 where "c2 = 1 - beta2 opt ^ Suc n"
  have c: "0 < c1" "0 < c2" using p1 p2 by (simp_all add: c1_def c2_def)
  have m: "beta1 opt * exp_avg opt + (1 - beta1 opt) * g = c1 * g"
    by (simp add: st c1_def algebra_simps)
  have v: "beta2 opt * exp_avg_sq opt + (1 - beta2 opt) * g\<^sup>2 = c2 * g\<^sup>2"
    by (simp add: st c2_def algebra_simps)
  have "sqrt (c2 * g\<^sup>2) / sqrt c2 = g"
    using c g by (simp add: real_sqrt_mult)
  then have d: "sqrt (c2 * g\<^sup>2) / sqrt c2 + eps opt = g + eps opt" by simp
  have e: "fst (adam_step opt g p) =
      p - lr opt / (1 - beta1 opt ^ Suc n) *
          ((beta1 opt * exp_avg opt + (1 - beta1 opt) * g) /
           (sqrt (beta2 opt * exp_avg_sq opt + (1 - beta2 opt) * g\<^sup>2)
              / sqrt (1 - beta2 opt ^ Suc n) + eps opt))"
    by (simp add: adam_step_def Let_def st(1) del: power_Suc)
  have "fst (adam_step opt g p) = p - lr opt / c1 * (c1 * g / (g + eps opt))"
    unfolding e m v c1_def [symmetric] c2_def [symmetric] d ..
  also have "lr opt / c1 * (c1 * g / (g + eps opt)) = lr opt * (g / (g + eps opt))"
    using c by simp
  finally show "fst (adam_step opt g p) = p - lr opt * (g / (g + eps opt))" .
  show "step_count (snd (adam_step opt g p)) = Suc n"
    by (simp add: adam_step_def Let_def st)
  show "exp_avg (snd (adam_step opt g p)) = (1 - beta1 opt ^ Suc n) * g"
    using m by (simp add: adam_step_def Let_def c1_def)
  show "exp_avg_sq (snd (adam_step opt g p)) = (1 - beta2 opt ^ Suc n) * g\<^sup>2"
    using v by (simp add: adam_step_def Let_def c2_def)
  show "lr (snd (adam_step opt g p)) = lr opt" "eps (snd (adam_step opt g p)) = eps opt"
    "beta1 (snd (adam_step opt g p)) = beta1 opt" "beta2 (snd (adam_step opt g p)) = beta2 opt"
    by (simp_all add: adam_step_def Let_def)
qed


lemma demo_grad_pos: "2 / 5 \<le> demo_grad"
proof -
  have "4 \<le> 2 * pi" using pi_ge_two by simp
  then have "sqrt 4 \<le> sqrt (2 * pi)" by (simp only: real_sqrt_le_iff)
  then have x: "2 \<le> sqrt (2 * pi)" by simp
  have "ln (1 / sqrt (2 * pi)) \<le> 1 / sqrt (2 * pi) - 1"
    using x by (intro ln_le_minus_one) simp
  moreover have "ln (1 / sqrt (2 * pi)) = - ln (sqrt (2 * pi))"
    using x by (simp add: ln_div)
  moreover have "1 / sqrt (2 * pi) \<le> 1 / 2" using x by (simp add: field_simps)
  ultimately have l: "1 / 2 \<le> ln (sqrt (2 * pi))" by linarith
  have "0 \<le> ln (1000001 / 1000000 :: real)" by simp
  with l show ?thesis unfolding demo_grad_def by linarith
qed

lemma demo_entropy_grad_any:
  "min_alpha st = \<lparr>sval = 1 / 10, sgrad = False\<rparr> \<Longrightarrow>
   entropy_grad st (snd (sample_stochastic demo_nets True demo_noise m (from_rows [[0]])))
     = demo_grad"
  by (simp add: entropy_grad_def entropy_detached_def mean_list_def demo_grad_def
      sample_stochastic_def actor_forward_def reparameterize_def calc_log_pi_def
      normal_log_prob_def tensor_defs demo_nets_def demo_noise_def Let_def)

lemma update_batch_size:
  assumes "update nets rng noise_c noise_a st = Inr (st1, losses)"
  shows "batch_size st1 = batch_size st"
  using assms
  by (auto simp: update_def Let_def update_critic_def update_actor_def entropy_adjust_func_def
      update_target_def split: sum.splits prod.splits)

lemma demo_batch_size: "batch_size demo_sac1 = 1"
  by (simp add: demo_sac1_def step_start_steps(2) demo_sac_def SAC_init_def)

lemma demo_inv_update:
  assumes i: "demo_inv k st"
  shows "\<exists>st1 losses. update demo_nets demo_rng demo_noise demo_noise st = Inr (st1, losses) \<and>
           demo_inv (Suc k) st1"
proof -
  have s: "sample demo_rng (buffer st) (batch_size st) =
     Inr \<lparr>b_states = from_rows [[0]], b_acts = from_rows [[1 / 2]], b_rews = from_rows [[1]],
          b_dones = from_rows [[0]], b_n_states = from_rows [[1]]\<rparr>"
    using i demo_sample by (simp add: demo_inv_def demo_batch_size)
  have m: "min_alpha st = \<lparr>sval = 1 / 10, sgrad = False\<rparr>" using i by (simp add: demo_inv_def)
  obtain st1 losses where u: "update demo_nets demo_rng demo_noise demo_noise st = Inr (st1, losses)"
    and a: "alpha st1 = (alpha st)\<lparr>sval := fst (adam_step (optim_alpha st) demo_grad
                                               (sval (alpha st)))\<rparr>"
    and o: "optim_alpha st1 = snd (adam_step (optim_alpha st) demo_grad (sval (alpha st)))"
    and ma: "min_alpha st1 = min_alpha st"
    using update_alpha [OF s, of demo_nets demo_noise demo_noise]
    by (auto simp: demo_entropy_grad_any [OF m])
  have g: "0 < demo_grad" using demo_grad_pos by simp
  have c: "lr (optim_alpha st) = 3 / 10000" "eps (optim_alpha st) = 1 / 10 ^ 8"
    "beta1 (optim_alpha st) = 9 / 10" "beta2 (optim_alpha st) = 999 / 1000"
    "sval (alpha st) = 3 / 10 - real k * (3 / 10000 * (demo_grad / (demo_grad + 1 / 10 ^ 8)))"
    "step_count (optim_alpha st) = k"
    "exp_avg (optim_alpha st) = (1 - (9 / 10) ^ k) * demo_grad"
    "exp_avg_sq (optim_alpha st) = (1 - (999 / 1000) ^ k) * demo_grad\<^sup>2"
    using i unfolding demo_inv_def by blast+
  have st: "step_count (optim_alpha st) = k"
    "exp_avg (optim_alpha st) = (1 - beta1 (optim_alpha st) ^ k) * demo_grad"
    "exp_avg_sq (optim_alpha st) = (1 - beta2 (optim_alpha st) ^ k) * demo_grad\<^sup>2"
    by (simp_all only: c)
  have b: "0 < beta1 (optim_alpha st)" "beta1 (optim_alpha st) < 1"
    "0 < beta2 (optim_alpha st)" "beta2 (optim_alpha st) < 1"
    by (simp_all add: c)
  note ad = adam_const_grad_step [OF g st b, of "sval (alpha st)"]
  have f: "buffer st = buffer demo_sac1" "batch_size st = 1"
    using i unfolding demo_inv_def by blast+
  define D where "D = 3 / 10000 * (demo_grad / (demo_grad + 1 / 10 ^ 8))"
  have a1: "sval (alpha st1) = sval (alpha st)
              - lr (optim_alpha st) * (demo_grad / (demo_grad + eps (optim_alpha st)))"
    unfolding a using ad(1) by simp
  have a2: "sval (alpha st1) = (3 / 10 - real k * D) - D"
    unfolding a1 c D_def ..
  have a3: "sval (alpha st1) = 3 / 10 - real (Suc k) * D"
    unfolding a2 by (simp add: algebra_simps)
  have r: "buffer st1 = buffer demo_sac1" "batch_size st1 = 1"
    "min_alpha st1 = \<lparr>sval = 1 / 10, sgrad = False\<rparr>"
    using update_buffer [OF u] update_batch_size [OF u] ma m f by simp_all
  have o1: "step_count (optim_alpha st1) = Suc k"
    unfolding o by (rule ad(2))
  have o2: "exp_avg (optim_alpha st1) = (1 - (9 / 10) ^ Suc k) * demo_grad"
    unfolding o ad(3) c(3) ..
  have o3: "exp_avg_sq (optim_alpha st1) = (1 - (999 / 1000) ^ Suc k) * demo_grad\<^sup>2"
    unfolding o ad(4) c(4) ..
  have o4: "lr (optim_alpha st1) = 3 / 10000" "eps (optim_alpha st1) = 1 / 10 ^ 8"
    "beta1 (optim_alpha st1) = 9 / 10" "beta2 (optim_alpha st1) = 999 / 1000"
    unfolding o ad(5-8) by (rule c)+
  have "demo_inv (Suc k) st1"
    unfolding demo_inv_def D_def [symmetric]
    by (intro conjI) (fact r o1 o2 o3 o4 a3)+
  with u show ?thesis by blast
qed

lemma demo_inv_updates:
  "demo_inv k st \<Longrightarrow>
     \<exists>st1. updates n demo_nets demo_rng demo_noise demo_noise st = Inr st1 \<and> demo_inv (k + n) st1"
proof (induction n arbitrary: k st)
  case 0
  then show ?case by simp
next
  case (Suc n)
  obtain st1 losses where u: "update demo_nets demo_rng demo_noise demo_noise st = Inr (st1, losses)"
    and i: "demo_inv (Suc k) st1"
    using demo_inv_update [OF Suc.prems] by blast
  obtain st2 where "updates n demo_nets demo_rng demo_noise demo_noise st1 = Inr st2"
    and "demo_inv (Suc k + n) st2"
    using Suc.IH [OF i] by blast
  then show ?case using u by simp
qed

lemma demo_inv_init: "demo_inv 0 demo_sac1"
  by (simp add: demo_inv_def demo_sac1_alpha Adam_def)
    (simp add: demo_sac1_def step_def select_action_def Let_def demo_defs)

lemma adam_first_step_bound:
  assumes "0 \<le> l"
  shows "p - l \<le> fst (adam_step (Adam l) g p)"
proof -
  have "g \<le> \<bar>g\<bar> + 1 / 10 ^ 8" by simp
  then have "g / (\<bar>g\<bar> + 1 / 10 ^ 8) \<le> 1" by (simp add: field_simps)
  then have "l * (g / (\<bar>g\<bar> + 1 / 10 ^ 8)) \<le> l * 1"
    using assms by (rule mult_left_mono)
  then show ?thesis unfolding adam_first_step by simp
qed

lemma step_alpha: "alpha (fst (snd (step ops nets noise st e s t steps))) = alpha st"
  by (simp add: step_def Let_def split: prod.splits)

text \<open>
  Claim C4, as far as it holds. \<open>alpha\<close> is non-negative after the initialization when
  \<open>min_alpha \<ge> 0\<close>; the optimizer of \<open>alpha\<close> starts as a fresh Adam with rate
  \<open>lr_alpha\<close>; an environment step leaves \<open>alpha\<close> as it is; and the first Adam step on
  \<open>alpha\<close>, alone or inside the first \<open>update\<close> that gets its batch, keeps \<open>alpha\<close>
  non-negative when the learning rate is between 0 and the current \<open>alpha\<close>. The step is
  a plain Adam step on the value of \<open>alpha\<close>; nothing clamps it and nothing keeps it in
  log-space.
\<close>

theorem alpha_nonneg_initially:
  "(0 \<le> ma \<longrightarrow> 0 \<le> sval (alpha (SAC_init a0 c0 t0 oa oc bs g0 lra bsz ss tau0 ma rs))) \<and>
   optim_alpha (SAC_init a0 c0 t0 oa oc bs g0 lra bsz ss tau0 ma rs) = Adam lra \<and>
   alpha (fst (snd (step ops nets noise st e s t steps))) = alpha st \<and>
   (optim_alpha st = Adam l \<and> 0 \<le> l \<and> l \<le> sval (alpha st) \<longrightarrow>
      0 \<le> sval (alpha (entropy_adjust_func st lp))) \<and>
   (\<forall>b. sample rng (buffer st) (batch_size st) = Inr b \<and>
        optim_alpha st = Adam l \<and> 0 \<le> l \<and> l \<le> sval (alpha st) \<longrightarrow>
      (\<exists>st1 losses. update nets rng noise_c noise_a st = Inr (st1, losses) \<and>
         0 \<le> sval (alpha st1)))"
proof -
  have i: "0 \<le> ma \<Longrightarrow> 0 \<le> sval (alpha (SAC_init a0 c0 t0 oa oc bs g0 lra bsz ss tau0 ma rs))"
    "optim_alpha (SAC_init a0 c0 t0 oa oc bs g0 lra bsz ss tau0 ma rs) = Adam lra"
    by (simp_all add: SAC_init_def Let_def)
  have b: "0 \<le> fst (adam_step (optim_alpha st) g (sval (alpha st)))"
    if "optim_alpha st = Adam l" "0 \<le> l" "l \<le> sval (alpha st)" for g
    using adam_first_step_bound [OF that(2), of "sval (alpha st)" g] that(1,3) by simp
  have e: "0 \<le> sval (alpha (entropy_adjust_func st lp))"
    if "optim_alpha st = Adam l" "0 \<le> l" "l \<le> sval (alpha st)"
    using b [OF that] by (simp add: entropy_adjust_unfold)
  have u: "\<exists>st1 losses. update nets rng noise_c noise_a st = Inr (st1, losses) \<and>
         0 \<le> sval (alpha st1)"
    if "sample rng (buffer st) (batch_size st) = Inr b"
      "optim_alpha st = Adam l" "0 \<le> l" "l \<le> sval (alpha st)" for b
    using update_alpha [OF that(1), of nets noise_c noise_a] b [OF that(2-4)] by auto
  show ?thesis
    using i e u step_alpha [of ops nets noise st e s t steps]
    by (intro conjI impI allI) auto
qed

text \<open>
  The theorem of C4 at the concrete instance: \<open>min_alpha = 0.1\<close>, learning rate \<open>0.0003\<close>,
  one update on a buffer of one transition.
\<close>

theorem alpha_nonneg_initially_witness:
  "(0::real) \<le> 1 / 10 \<and> 0 \<le> sval (alpha demo_sac) \<and>
   optim_alpha demo_sac1 = Adam (3 / 10000) \<and> (3 / 10000 :: real) \<le> sval (alpha demo_sac1) \<and>
   sample demo_rng (buffer demo_sac1) (batch_size demo_sac1) =
     Inr \<lparr>b_states = from_rows [[0]], b_acts = from_rows [[1 / 2]], b_rews = from_rows [[1]],
          b_dones = from_rows [[0]], b_n_states = from_rows [[1]]\<rparr> \<and>
   0 \<le> sval (alpha (entropy_adjust_func demo_sac1 (from_rows [[- 1]]))) \<and>
   (\<exists>st1 losses. update demo_nets demo_rng demo_noise demo_noise demo_sac1 = Inr (st1, losses) \<and>
      0 \<le> sval (alpha st1))"
  using alpha_nonneg_initially [where ?a0.0 = "[]" and ?c0.0 = "[[1, 2]]"
      and ?t0.0 = "[[5, 6]]" and oa = "()" and oc = "()" and bs = 1 and ?g0.0 = "99 / 100"
      and lra = "3 / 10000" and bsz = 10 and ss = 5 and ?tau0.0 = "5 / 1000" and ma = "1 / 10"
      and rs = 1 and st = demo_sac1 and lp = "from_rows [[- 1]]"
      and ops = demo_env and nets = demo_nets and noise = demo_noise
      and e = 0 and s = "[0]" and t = 0 and steps = 3 and l = "3 / 10000"
      and rng = demo_rng and noise_c = demo_noise and noise_a = demo_noise]
  by (simp add: demo_sample demo_sac1_alpha(1,2) demo_sac_def)

text \<open>
  Claim C4 as stated fails: non-negativity is not an invariant. At the concrete instance
  (\<open>min_alpha = 0.1\<close> and \<open>lr_alpha = 0.0003\<close>, the constructor's defaults) every update
  sees the log-probability \<open>- ln (sqrt (2 pi)) - ln 1.000001\<close>, the gradient of the entropy
  loss is the positive constant \<open>demo_grad\<close>, every Adam step lowers \<open>alpha\<close> by
  \<open>0.0003 g / (g + 1e-8)\<close>, and after 1001 calls of \<open>update\<close> \<open>alpha\<close> is negative.
\<close>

theorem alpha_negative_counterexample:
  "\<not> isl (updates 1001 demo_nets demo_rng demo_noise demo_noise demo_sac1) \<and>
   sval (alpha (projr (updates 1001 demo_nets demo_rng demo_noise demo_noise demo_sac1))) < 0"
proof -
  obtain st where u: "updates 1001 demo_nets demo_rng demo_noise demo_noise demo_sac1 = Inr st"
    and i: "demo_inv (0 + 1001) st"
    using demo_inv_updates [OF demo_inv_init, of 1001] by blast
  have g: "2 / 5 \<le> demo_grad" by (rule demo_grad_pos)
  define R where "R = demo_grad / (demo_grad + 1 / 10 ^ 8)"
  have "1000 / 1001 < demo_grad / (demo_grad + 1 / 10 ^ 8)"
    using g by (simp add: field_simps)
  then have r: "1000 / 1001 < R" by (simp only: R_def)
  have "sval (alpha st) = 3 / 10 - 1001 * (3 / 10000 * R)"
    using i unfolding demo_inv_def R_def by simp
  with r have "sval (alpha st) < 0" by simp
  then show ?thesis by (simp add: u)
qed

section \<open>The squashed Gaussian sampler\<close>

lemma map2_upt:
  "map2 f (map g xs) (map h xs) = map (\<lambda>x. f (g x) (h x)) xs"
  by (induction xs) auto

lemma rows_as_table:
  "xss = map (\<lambda>i. map (\<lambda>j. xss ! i ! j) [0..<length (xss ! i)]) [0..<length xss]"
  by (simp add: map_nth cong: map_cong)

lemma same_shape_table:
  assumes "map length xss = map length yss"
  shows "yss = map (\<lambda>i. map (\<lambda>j. yss ! i ! j) [0..<length (xss ! i)]) [0..<length xss]"
proof -
  have l: "length yss = length xss" using assms by (metis length_map)
  have "length (yss ! i) = length (xss ! i)" if "i < length xss" for i
    using assms that l by (metis nth_map)
  then have "map (\<lambda>i. map (\<lambda>j. yss ! i ! j) [0..<length (xss ! i)]) [0..<length xss]
           = map (\<lambda>i. map (\<lambda>j. yss ! i ! j) [0..<length (yss ! i)]) [0..<length yss]"
    using l by (simp cong: map_cong)
  then show ?thesis using rows_as_table [of yss] by simp
qed

lemma normal_log_prob_shift:
  "normal_log_prob 0 s d = normal_log_prob m s (m + d)"
  by (simp add: normal_log_prob_def)

lemma t_map_table:
  "t_map f ge \<lparr>rows = map (\<lambda>i. map (A i) [0..<n i]) [0..<B], requires_grad = r\<rparr>
   = \<lparr>rows = map (\<lambda>i. map (\<lambda>j. f (A i j)) [0..<n i]) [0..<B], requires_grad = (ge \<and> r)\<rparr>"
  by (simp add: t_map_def o_def)

lemma t_zip_table:
  "t_zip f ge \<lparr>rows = map (\<lambda>i. map (A i) [0..<n i]) [0..<B], requires_grad = r1\<rparr>
              \<lparr>rows = map (\<lambda>i. map (C i) [0..<n i]) [0..<B], requires_grad = r2\<rparr>
   = \<lparr>rows = map (\<lambda>i. map (\<lambda>j. f (A i j) (C i j)) [0..<n i]) [0..<B],
      requires_grad = (ge \<and> (r1 \<or> r2))\<rparr>"
  unfolding t_zip_def by (simp only: tensor.simps map2_upt)

lemma t_zip_col:
  "t_zip f ge \<lparr>rows = map (\<lambda>i. [a i]) xs, requires_grad = r1\<rparr>
              \<lparr>rows = map (\<lambda>i. [c i]) xs, requires_grad = r2\<rparr>
   = \<lparr>rows = map (\<lambda>i. [f (a i) (c i)]) xs, requires_grad = (ge \<and> (r1 \<or> r2))\<rparr>"
  unfolding t_zip_def by (simp add: map2_upt)

lemma t_randn_table:
  "t_randn_like noise \<lparr>rows = map (\<lambda>i. map (A i) [0..<n i]) [0..<B], requires_grad = r\<rparr>
   = \<lparr>rows = map (\<lambda>i. map (noise i) [0..<n i]) [0..<B], requires_grad = False\<rparr>"
  by (simp add: t_randn_like_def cong: map_cong)

lemma t_sum_last_table:
  "t_sum_last ge \<lparr>rows = map (\<lambda>i. map (A i) [0..<n i]) [0..<B], requires_grad = r\<rparr>
   = \<lparr>rows = map (\<lambda>i. [sum_list (map (A i) [0..<n i])]) [0..<B], requires_grad = (ge \<and> r)\<rparr>"
  by (simp add: t_sum_last_def o_def)

lemma reparameterize_table:
  "reparameterize ge noise
      \<lparr>rows = map (\<lambda>i. map (M i) [0..<n i]) [0..<B], requires_grad = r1\<rparr>
      \<lparr>rows = map (\<lambda>i. map (L i) [0..<n i]) [0..<B], requires_grad = r2\<rparr>
   = (\<lparr>rows = map (\<lambda>i. map (\<lambda>j. tanh (exp (L i j) * noise i j + M i j)) [0..<n i]) [0..<B],
       requires_grad = (ge \<and> (r2 \<or> r1))\<rparr>,
      \<lparr>rows = map (\<lambda>i.
          [sum_list (map (\<lambda>j. normal_log_prob 0 (exp (L i j)) (exp (L i j) * noise i j)) [0..<n i])
           - sum_list (map (\<lambda>j. ln (1 - (tanh (exp (L i j) * noise i j + M i j))\<^sup>2 + 1 / 10 ^ 6))
                         [0..<n i])]) [0..<B],
       requires_grad = (ge \<and> (r2 \<or> r1))\<rparr>)"
  unfolding reparameterize_def calc_log_pi_def Let_def
    t_map_table t_randn_table t_zip_table t_sum_last_table t_zip_col
  by auto

lemma reparameterize_rows:
  assumes "map length (rows means) = map length (rows log_stds)"
  shows "reparameterize ge noise means log_stds
   = (\<lparr>rows = map (\<lambda>i. map (\<lambda>j. tanh (exp (rows log_stds ! i ! j) * noise i j + rows means ! i ! j))
                          [0..<length (rows means ! i)]) [0..<length (rows means)],
       requires_grad = (ge \<and> (requires_grad log_stds \<or> requires_grad means))\<rparr>,
      \<lparr>rows = map (\<lambda>i.
          [sum_list (map (\<lambda>j. normal_log_prob 0 (exp (rows log_stds ! i ! j))
                                  (exp (rows log_stds ! i ! j) * noise i j))
                      [0..<length (rows means ! i)])
           - sum_list (map (\<lambda>j. ln (1 - (tanh (exp (rows log_stds ! i ! j) * noise i j
                                                + rows means ! i ! j))\<^sup>2 + 1 / 10 ^ 6))
                         [0..<length (rows means ! i)])]) [0..<length (rows means)],
       requires_grad = (ge \<and> (requires_grad log_stds \<or> requires_grad means))\<rparr>)"
proof -
  define B where "B = length (rows means)"
  define n where "n i = length (rows means ! i)" for i
  define M where "M i j = rows means ! i ! j" for i j
  define L where "L i j = rows log_stds ! i ! j" for i j
  have "rows means = map (\<lambda>i. map (M i) [0..<n i]) [0..<B]"
    unfolding B_def n_def M_def by (rule rows_as_table)
  then have m: "means = \<lparr>rows = map (\<lambda>i. map (M i) [0..<n i]) [0..<B],
                         requires_grad = requires_grad means\<rparr>"
    by (intro tensor.equality) simp_all
  have "rows log_stds = map (\<lambda>i. map (L i) [0..<n i]) [0..<B]"
    unfolding B_def n_def L_def using assms by (rule same_shape_table)
  then have l: "log_stds = \<lparr>rows = map (\<lambda>i. map (L i) [0..<n i]) [0..<B],
                            requires_grad = requires_grad log_stds\<rparr>"
    by (intro tensor.equality) simp_all
  have r: "reparameterize ge noise means log_stds
   = (\<lparr>rows = map (\<lambda>i. map (\<lambda>j. tanh (exp (L i j) * noise i j + M i j)) [0..<n i]) [0..<B],
       requires_grad = (ge \<and> (requires_grad log_stds \<or> requires_grad means))\<rparr>,
      \<lparr>rows = map (\<lambda>i.
          [sum_list (map (\<lambda>j. normal_log_prob 0 (exp (L i j)) (exp (L i j) * noise i j)) [0..<n i])
           - sum_list (map (\<lambda>j. ln (1 - (tanh (exp (L i j) * noise i j + M i j))\<^sup>2 + 1 / 10 ^ 6))
                         [0..<n i])]) [0..<B],
       requires_grad = (ge \<and> (requires_grad log_stds \<or> requires_grad means))\<rparr>)"
    by (subst m, subst l) (rule reparameterize_table)
  show ?thesis
    using r unfolding B_def n_def M_def L_def .
qed



section \<open>The critic target\<close>

lemma t_map_col:
  "t_map f ge \<lparr>rows = map (\<lambda>i. [a i]) xs, requires_grad = r\<rparr>
   = \<lparr>rows = map (\<lambda>i. [f (a i)]) xs, requires_grad = (ge \<and> r)\<rparr>"
  by (simp add: t_map_def o_def)

lemma t_scal_col:
  "t_scal f ge s \<lparr>rows = map (\<lambda>i. [a i]) xs, requires_grad = r\<rparr>
   = \<lparr>rows = map (\<lambda>i. [f (sval s) (a i)]) xs, requires_grad = (ge \<and> (sgrad s \<or> r))\<rparr>"
  by (simp add: t_scal_def o_def)

lemma t_mean_col:
  "t_mean ge \<lparr>rows = map (\<lambda>i. [a i]) xs, requires_grad = r\<rparr>
   = \<lparr>sval = mean_list (map a xs), sgrad = (ge \<and> r)\<rparr>"
  by (simp add: t_mean_def concat_map_singleton)

lemma critic_forward_col:
  "critic_forward nets ge m \<lparr>rows = map S xs, requires_grad = r1\<rparr>
                            \<lparr>rows = map A xs, requires_grad = r2\<rparr>
   = (\<lparr>rows = map (\<lambda>i. [fst (critic_net nets (params m) (S i) (A i))]) xs,
       requires_grad = (ge \<and> (trainable m \<or> r1 \<or> r2))\<rparr>,
      \<lparr>rows = map (\<lambda>i. [snd (critic_net nets (params m) (S i) (A i))]) xs,
       requires_grad = (ge \<and> (trainable m \<or> r1 \<or> r2))\<rparr>)"
  unfolding critic_forward_def Let_def by (simp only: tensor.simps map2_upt)

lemma tensor_rows_nth:
  assumes "length (rows a) = B"
  shows "a = \<lparr>rows = map (\<lambda>i. rows a ! i) [0..<B], requires_grad = requires_grad a\<rparr>"
proof -
  have "map (\<lambda>i. rows a ! i) [0..<B] = rows a"
    unfolding assms [symmetric] by (rule map_nth)
  then show ?thesis by (intro tensor.equality) simp_all
qed

lemma tensor_col_nth:
  assumes "rows a = map (\<lambda>x. [x]) xs" "length xs = B"
  shows "a = \<lparr>rows = map (\<lambda>i. [xs ! i]) [0..<B], requires_grad = requires_grad a\<rparr>"
proof -
  have "map (\<lambda>x. [x]) xs = map (\<lambda>i. [xs ! i]) [0..<B]"
    using assms(2) by (intro nth_equalityI) simp_all
  then show ?thesis using assms(1) by (intro tensor.equality) simp_all
qed

lemma sample_stochastic_shape:
  assumes "\<forall>s\<in>set (rows states).
             length (fst (actor_net nets (params m) s)) = length (snd (actor_net nets (params m) s))"
  shows "length (rows (fst (sample_stochastic nets ge noise m states))) = length (rows states)"
    and "rows (snd (sample_stochastic nets ge noise m states))
           = map (\<lambda>i. [rows (snd (sample_stochastic nets ge noise m states)) ! i ! 0])
               [0..<length (rows states)]"
proof -
  define means where "means = fst (actor_forward nets ge m states)"
  define log_stds where "log_stds = snd (actor_forward nets ge m states)"
  have sh: "map length (rows means) = map length (rows log_stds)"
    using assms by (simp add: means_def log_stds_def actor_forward_def Let_def)
  have l: "length (rows means) = length (rows states)"
    by (simp add: means_def actor_forward_def Let_def)
  have s: "sample_stochastic nets ge noise m states = reparameterize ge noise means log_stds"
    by (simp add: sample_stochastic_def means_def log_stds_def split: prod.splits)
  show "length (rows (fst (sample_stochastic nets ge noise m states))) = length (rows states)"
    unfolding s reparameterize_rows [OF sh] using l by simp
  show "rows (snd (sample_stochastic nets ge noise m states))
           = map (\<lambda>i. [rows (snd (sample_stochastic nets ge noise m states)) ! i ! 0])
               [0..<length (rows states)]"
    unfolding s reparameterize_rows [OF sh] using l by (simp cong: map_cong)
qed

lemma sample_stochastic_no_grad:
  "\<not> requires_grad (fst (sample_stochastic nets False noise m states))"
  "\<not> requires_grad (snd (sample_stochastic nets False noise m states))"
  by (simp_all add: sample_stochastic_def actor_forward_def reparameterize_def calc_log_pi_def
      tensor_defs Let_def)

lemma critic_target_qs_rows:
  assumes sh: "\<forall>s\<in>set (rows n_states).
             length (fst (actor_net nets (params (actor st)) s))
               = length (snd (actor_net nets (params (actor st)) s))"
    and r: "rows rews = map (\<lambda>x. [x]) rs" "length rs = length (rows n_states)"
    and d: "rows dones = map (\<lambda>x. [x]) ds" "length ds = length (rows n_states)"
  shows "critic_target_qs nets noise st rews dones n_states =
     \<lparr>rows = map (\<lambda>i.
        [reward_scale st * rs ! i
         + gamma st * (1 - ds ! i)
           * (min (fst (critic_net nets (params (critic_target st)) (rows n_states ! i)
                     (rows (fst (sample_stochastic nets False noise (actor st) n_states)) ! i)))
                  (snd (critic_net nets (params (critic_target st)) (rows n_states ! i)
                     (rows (fst (sample_stochastic nets False noise (actor st) n_states)) ! i)))
              - sval (alpha st)
                * (rows (snd (sample_stochastic nets False noise (actor st) n_states)) ! i ! 0))])
        [0..<length (rows n_states)],
      requires_grad = (requires_grad rews \<or> requires_grad dones)\<rparr>"
proof -
  define B where "B = length (rows n_states)"
  define SS where "SS = sample_stochastic nets False noise (actor st) n_states"
  note ss = sample_stochastic_shape [OF sh, of False noise, folded SS_def B_def]
  have a: "fst SS = \<lparr>rows = map (\<lambda>i. rows (fst SS) ! i) [0..<B], requires_grad = False\<rparr>"
    using tensor_rows_nth [OF ss(1)] sample_stochastic_no_grad(1) [of nets noise "actor st" n_states]
    by (simp add: SS_def)
  have "snd SS = \<lparr>rows = rows (snd SS), requires_grad = False\<rparr>"
    using sample_stochastic_no_grad(2) [of nets noise "actor st" n_states]
    by (intro tensor.equality) (simp_all add: SS_def)
  then have l: "snd SS = \<lparr>rows = map (\<lambda>i. [rows (snd SS) ! i ! 0]) [0..<B], requires_grad = False\<rparr>"
    using ss(2) by simp
  have n: "n_states = \<lparr>rows = map (\<lambda>i. rows n_states ! i) [0..<B],
                        requires_grad = requires_grad n_states\<rparr>"
    by (rule tensor_rows_nth) (simp add: B_def)
  have rw: "rews = \<lparr>rows = map (\<lambda>i. [rs ! i]) [0..<B], requires_grad = requires_grad rews\<rparr>"
    using r by (intro tensor_col_nth) (simp_all add: B_def)
  have dn: "dones = \<lparr>rows = map (\<lambda>i. [ds ! i]) [0..<B], requires_grad = requires_grad dones\<rparr>"
    using d by (intro tensor_col_nth) (simp_all add: B_def)
  have "critic_target_qs nets noise st rews dones n_states =
     (let (q1, q2) = critic_forward nets False (critic_target st) n_states (fst SS);
          target_vs = t_zip (-) False (t_zip min False q1 q2) (t_scal (*) False (alpha st) (snd SS))
      in t_zip (+) True
           (t_map (\<lambda>r. reward_scale st * r) True rews)
           (t_zip (*) True (t_map (\<lambda>v. gamma st * v) True target_vs)
                           (t_map (\<lambda>d. 1 - d) True dones)))"
    by (simp add: critic_target_qs_def SS_def Let_def split: prod.splits)
  also have "\<dots> = \<lparr>rows = map (\<lambda>i.
        [reward_scale st * rs ! i
         + gamma st * (min (fst (critic_net nets (params (critic_target st)) (rows n_states ! i)
                               (rows (fst SS) ! i)))
                  (snd (critic_net nets (params (critic_target st)) (rows n_states ! i)
                               (rows (fst SS) ! i)))
              - sval (alpha st) * (rows (snd SS) ! i ! 0)) * (1 - ds ! i)])
        [0..<B],
      requires_grad = (requires_grad rews \<or> requires_grad dones)\<rparr>"
    apply (subst n, subst a, subst l, subst rw, subst dn)
    apply (simp only: critic_forward_col Let_def prod.case t_zip_col t_scal_col t_map_col)
    apply simp
    done
  finally show ?thesis
    unfolding SS_def B_def by (simp add: mult.assoc mult.commute)
qed

lemma critic_loss_values:
  assumes t: "critic_target_qs nets noise st rews dones n_states
                = \<lparr>rows = map (\<lambda>i. [T i]) [0..<B], requires_grad = g\<rparr>"
    and l: "length (rows states) = B" "length (rows actions) = B"
  shows "sval (fst (critic_loss_func nets noise st states actions rews dones n_states))
           = mean_list (map (\<lambda>i. (fst (critic_net nets (params (critic st)) (rows states ! i)
                                           (rows actions ! i)) - T i)\<^sup>2) [0..<B])"
    and "sval (snd (critic_loss_func nets noise st states actions rews dones n_states))
           = mean_list (map (\<lambda>i. (snd (critic_net nets (params (critic st)) (rows states ! i)
                                           (rows actions ! i)) - T i)\<^sup>2) [0..<B])"
proof -
  note s = tensor_rows_nth [OF l(1)]
  note a = tensor_rows_nth [OF l(2)]
  have c: "critic_forward nets True (critic st) states actions
     = (\<lparr>rows = map (\<lambda>i. [fst (critic_net nets (params (critic st)) (rows states ! i)
                                   (rows actions ! i))]) [0..<B],
         requires_grad = (trainable (critic st) \<or> requires_grad states \<or> requires_grad actions)\<rparr>,
        \<lparr>rows = map (\<lambda>i. [snd (critic_net nets (params (critic st)) (rows states ! i)
                                   (rows actions ! i))]) [0..<B],
         requires_grad = (trainable (critic st) \<or> requires_grad states \<or> requires_grad actions)\<rparr>)"
    by (subst s, subst a) (simp add: critic_forward_col)
  show "sval (fst (critic_loss_func nets noise st states actions rews dones n_states))
           = mean_list (map (\<lambda>i. (fst (critic_net nets (params (critic st)) (rows states ! i)
                                           (rows actions ! i)) - T i)\<^sup>2) [0..<B])"
    unfolding critic_loss_func_def c t Let_def prod.case t_zip_col t_map_col t_mean_col by simp
  show "sval (snd (critic_loss_func nets noise st states actions rews dones n_states))
           = mean_list (map (\<lambda>i. (snd (critic_net nets (params (critic st)) (rows states ! i)
                                           (rows actions ! i)) - T i)\<^sup>2) [0..<B])"
    unfolding critic_loss_func_def c t Let_def prod.case t_zip_col t_map_col t_mean_col by simp
qed

text \<open>
  Claim C1. For a batch of \<open>B\<close> next states, with rewards and done flags as columns of
  \<open>B\<close> rows and a policy network whose mean and log-std have the same length, the target
  of row \<open>i\<close> is
  \<open>reward_scale * r + gamma * (1 - done) * (min (target_q1 (s', a')) (target_q2 (s', a')) - alpha * log_pi)\<close>,
  where \<open>a'\<close> and \<open>log_pi\<close> are the stochastic sample of the current policy at \<open>s'\<close>,
  drawn with gradients disabled, and the two values are those of the target critic. The
  target is not tracked by autograd when rewards and done flags are not (they come from the
  replay buffer), although the actor and \<open>alpha\<close> are. The two critic losses are the means
  over the batch of the squared differences between \<open>q1 (s, a)\<close>, \<open>q2 (s, a)\<close> of the
  live critic and this target.
\<close>

theorem critic_target_formula:
  assumes "\<forall>s\<in>set (rows n_states).
             length (fst (actor_net nets (params (actor st)) s))
               = length (snd (actor_net nets (params (actor st)) s))"
    and "rows rews = map (\<lambda>x. [x]) rs" "length rs = length (rows n_states)"
    and "rows dones = map (\<lambda>x. [x]) ds" "length ds = length (rows n_states)"
  shows "rows (critic_target_qs nets noise st rews dones n_states) =
      map (\<lambda>i.
        [reward_scale st * rs ! i
         + gamma st * (1 - ds ! i)
           * (min (fst (critic_net nets (params (critic_target st)) (rows n_states ! i)
                     (rows (fst (sample_stochastic nets False noise (actor st) n_states)) ! i)))
                  (snd (critic_net nets (params (critic_target st)) (rows n_states ! i)
                     (rows (fst (sample_stochastic nets False noise (actor st) n_states)) ! i)))
              - sval (alpha st)
                * (rows (snd (sample_stochastic nets False noise (actor st) n_states)) ! i ! 0))])
        [0..<length (rows n_states)] \<and>
    (\<not> requires_grad rews \<and> \<not> requires_grad dones \<longrightarrow>
       \<not> requires_grad (critic_target_qs nets noise st rews dones n_states)) \<and>
    (length (rows states) = length (rows n_states) \<and>
     length (rows actions) = length (rows n_states) \<longrightarrow>
       sval (fst (critic_loss_func nets noise st states actions rews dones n_states))
         = mean_list (map (\<lambda>i. (fst (critic_net nets (params (critic st)) (rows states ! i)
                                         (rows actions ! i))
                                  - rows (critic_target_qs nets noise st rews dones n_states) ! i ! 0)\<^sup>2)
                        [0..<length (rows n_states)]) \<and>
       sval (snd (critic_loss_func nets noise st states actions rews dones n_states))
         = mean_list (map (\<lambda>i. (snd (critic_net nets (params (critic st)) (rows states ! i)
                                         (rows actions ! i))
                                  - rows (critic_target_qs nets noise st rews dones n_states) ! i ! 0)\<^sup>2)
                        [0..<length (rows n_states)]))"
proof -
  note t = critic_target_qs_rows [OF assms, of noise]
  have ti: "rows (critic_target_qs nets noise st rews dones n_states) ! i ! 0
      = reward_scale st * rs ! i
         + gamma st * (1 - ds ! i)
           * (min (fst (critic_net nets (params (critic_target st)) (rows n_states ! i)
                     (rows (fst (sample_stochastic nets False noise (actor st) n_states)) ! i)))
                  (snd (critic_net nets (params (critic_target st)) (rows n_states ! i)
                     (rows (fst (sample_stochastic nets False noise (actor st) n_states)) ! i)))
              - sval (alpha st)
                * (rows (snd (sample_stochastic nets False noise (actor st) n_states)) ! i ! 0))"
    if "i < length (rows n_states)" for i
    using that by (simp add: t)
  have l: "sval (fst (critic_loss_func nets noise st states actions rews dones n_states))
         = mean_list (map (\<lambda>i. (fst (critic_net nets (params (critic st)) (rows states ! i)
                                         (rows actions ! i))
                                  - rows (critic_target_qs nets noise st rews dones n_states) ! i ! 0)\<^sup>2)
                        [0..<length (rows n_states)])"
     "sval (snd (critic_loss_func nets noise st states actions rews dones n_states))
         = mean_list (map (\<lambda>i. (snd (critic_net nets (params (critic st)) (rows states ! i)
                                         (rows actions ! i))
                                  - rows (critic_target_qs nets noise st rews dones n_states) ! i ! 0)\<^sup>2)
                        [0..<length (rows n_states)])"
    if "length (rows states) = length (rows n_states)"
      "length (rows actions) = length (rows n_states)"
  proof -
    show "sval (fst (critic_loss_func nets noise st states actions rews dones n_states))
         = mean_list (map (\<lambda>i. (fst (critic_net nets (params (critic st)) (rows states ! i)
                                         (rows actions ! i))
                                  - rows (critic_target_qs nets noise st rews dones n_states) ! i ! 0)\<^sup>2)
                        [0..<length (rows n_states)])"
      unfolding critic_loss_values(1) [OF t that]
      by (intro arg_cong [where f = mean_list] map_cong refl) (simp add: ti)
    show "sval (snd (critic_loss_func nets noise st states actions rews dones n_states))
         = mean_list (map (\<lambda>i. (snd (critic_net nets (params (critic st)) (rows states ! i)
                                         (rows actions ! i))
                                  - rows (critic_target_qs nets noise st rews dones n_states) ! i ! 0)\<^sup>2)
                        [0..<length (rows n_states)])"
      unfolding critic_loss_values(2) [OF t that]
      by (intro arg_cong [where f = mean_list] map_cong refl) (simp add: ti)
  qed
  have g: "\<not> requires_grad rews \<and> \<not> requires_grad dones \<Longrightarrow>
       \<not> requires_grad (critic_target_qs nets noise st rews dones n_states)"
    by (simp add: t)
  have r: "rows (critic_target_qs nets noise st rews dones n_states) =
      map (\<lambda>i.
        [reward_scale st * rs ! i
         + gamma st * (1 - ds ! i)
           * (min (fst (critic_net nets (params (critic_target st)) (rows n_states ! i)
                     (rows (fst (sample_stochastic nets False noise (actor st) n_states)) ! i)))
                  (snd (critic_net nets (params (critic_target st)) (rows n_states ! i)
                     (rows (fst (sample_stochastic nets False noise (actor st) n_states)) ! i)))
              - sval (alpha st)
                * (rows (snd (sample_stochastic nets False noise (actor st) n_states)) ! i ! 0))])
        [0..<length (rows n_states)]"
    by (simp add: t)
  show ?thesis using r g l by blast
qed

text \<open>
  The theorem of C1 at the concrete instance: a batch of one transition with reward 1, not
  terminal, critic values 1 and 2, \<open>alpha = 0.3\<close> and log-probability
  \<open>- (demo_grad + 0.1)\<close>.
\<close>

theorem critic_target_formula_witness:
  "rows (from_rows [[1]]) = map (\<lambda>x. [x]) [1] \<and> rows (from_rows [[0]]) = map (\<lambda>x. [x]) [0] \<and>
   rows (critic_target_qs demo_nets demo_noise demo_sac1 (from_rows [[1]]) (from_rows [[0]])
           (from_rows [[1]]))
     = [[1 + 99 / 100 * (1 + 3 / 10 * (demo_grad + 1 / 10))]] \<and>
   \<not> requires_grad (critic_target_qs demo_nets demo_noise demo_sac1 (from_rows [[1]])
                      (from_rows [[0]]) (from_rows [[1]])) \<and>
   sval (fst (critic_loss_func demo_nets demo_noise demo_sac1 (from_rows [[0]]) (from_rows [[1 / 2]])
                (from_rows [[1]]) (from_rows [[0]]) (from_rows [[1]])))
     = (1 - (1 + 99 / 100 * (1 + 3 / 10 * (demo_grad + 1 / 10))))\<^sup>2 \<and>
   sval (snd (critic_loss_func demo_nets demo_noise demo_sac1 (from_rows [[0]]) (from_rows [[1 / 2]])
                (from_rows [[1]]) (from_rows [[0]]) (from_rows [[1]])))
     = (2 - (1 + 99 / 100 * (1 + 3 / 10 * (demo_grad + 1 / 10))))\<^sup>2"
proof -
  have f: "reward_scale demo_sac1 = 1" "gamma demo_sac1 = 99 / 100"
    by (simp_all add: demo_sac1_def step_def select_action_def Let_def demo_defs)
  have n: "critic_net demo_nets p s a = (1, 2)" "actor_net demo_nets p s = ([0], [0])" for p s a
    by (simp_all add: demo_nets_def)
  have r: "rows (from_rows x) = x" "requires_grad (from_rows x) = False" for x
    by (simp_all add: from_rows_def)
  have lp: "rows (snd (sample_stochastic demo_nets False demo_noise (actor demo_sac1)
                         (from_rows [[1]]))) = [[- (demo_grad + 1 / 10)]]"
    by (simp add: sample_stochastic_def actor_forward_def reparameterize_def calc_log_pi_def
        normal_log_prob_def tensor_defs demo_nets_def demo_noise_def demo_grad_def Let_def)
  show ?thesis
    using critic_target_formula [where nets = demo_nets and noise = demo_noise and st = demo_sac1
        and rews = "from_rows [[1]]" and dones = "from_rows [[0]]" and n_states = "from_rows [[1]]"
        and rs = "[1]" and ds = "[0]" and states = "from_rows [[0]]"
        and actions = "from_rows [[1 / 2]]"]
    by (simp add: f lp n r demo_sac1_alpha(1) mean_list_def) (simp add: field_simps)
qed

section \<open>The actor loss\<close>

lemma sample_stochastic_grad:
  "requires_grad (fst (sample_stochastic nets ge noise m states))
     = (ge \<and> (trainable m \<or> requires_grad states))"
  "requires_grad (snd (sample_stochastic nets ge noise m states))
     = (ge \<and> (trainable m \<or> requires_grad states))"
  by (auto simp add: sample_stochastic_def actor_forward_def reparameterize_def calc_log_pi_def
      tensor_defs Let_def)

lemma actor_loss_value:
  assumes sh: "\<forall>s\<in>set (rows states).
             length (fst (actor_net nets (params (actor st)) s))
               = length (snd (actor_net nets (params (actor st)) s))"
  shows "fst (actor_loss_func nets noise st states) =
     \<lparr>sval = mean_list (map (\<lambda>i.
         sval (alpha st) * (rows (snd (sample_stochastic nets True noise (actor st) states)) ! i ! 0)
         - min (fst (critic_net nets (params (critic st)) (rows states ! i)
                  (rows (fst (sample_stochastic nets True noise (actor st) states)) ! i)))
               (snd (critic_net nets (params (critic st)) (rows states ! i)
                  (rows (fst (sample_stochastic nets True noise (actor st) states)) ! i))))
         [0..<length (rows states)]),
      sgrad = (sgrad (alpha st) \<or> trainable (actor st) \<or> requires_grad states
               \<or> trainable (critic st))\<rparr>"
proof -
  define B where "B = length (rows states)"
  define SS where "SS = sample_stochastic nets True noise (actor st) states"
  define G where "G = (trainable (actor st) \<or> requires_grad states)"
  note ss = sample_stochastic_shape [OF sh, of True noise, folded SS_def B_def]
  have g: "requires_grad (fst SS) = G" "requires_grad (snd SS) = G"
    by (simp_all add: SS_def G_def sample_stochastic_grad)
  have a: "fst SS = \<lparr>rows = map (\<lambda>i. rows (fst SS) ! i) [0..<B], requires_grad = G\<rparr>"
    using tensor_rows_nth [OF ss(1)] g(1) by simp
  have "snd SS = \<lparr>rows = rows (snd SS), requires_grad = G\<rparr>"
    using g(2) by (intro tensor.equality) simp_all
  then have l: "snd SS = \<lparr>rows = map (\<lambda>i. [rows (snd SS) ! i ! 0]) [0..<B], requires_grad = G\<rparr>"
    using ss(2) by simp
  have n: "states = \<lparr>rows = map (\<lambda>i. rows states ! i) [0..<B],
                      requires_grad = requires_grad states\<rparr>"
    by (rule tensor_rows_nth) (simp add: B_def)
  have "fst (actor_loss_func nets noise st states) =
     (let (q1, q2) = critic_forward nets True (critic st) states (fst SS)
      in t_mean True
           (t_zip (-) True (t_scal (*) True (alpha st) (snd SS)) (t_zip min True q1 q2)))"
    by (simp add: actor_loss_func_def SS_def Let_def split: prod.splits)
  also have "\<dots> = \<lparr>sval = mean_list (map (\<lambda>i.
         sval (alpha st) * (rows (snd SS) ! i ! 0)
         - min (fst (critic_net nets (params (critic st)) (rows states ! i) (rows (fst SS) ! i)))
               (snd (critic_net nets (params (critic st)) (rows states ! i) (rows (fst SS) ! i))))
         [0..<B]),
      sgrad = (sgrad (alpha st) \<or> trainable (actor st) \<or> requires_grad states
               \<or> trainable (critic st))\<rparr>"
    apply (subst n, subst a, subst l)
    apply (simp only: critic_forward_col Let_def prod.case t_zip_col t_scal_col t_mean_col)
    apply (auto simp: G_def)
    done
  finally show ?thesis unfolding SS_def B_def .
qed

lemma update_actor_params:
  "params (actor (fst (update_actor nets noise st states)))
     = fst (optim_step nets (optim_actor st)
              (clip_grad_norm (actor_backward nets (params (actor st)) (params (critic st))
                                 (sval (alpha st)) states noise) (1 / 2))
              (params (actor st)))"
  "buffer (fst (update_actor nets noise st states)) = buffer st"
  "optim_critic (fst (update_actor nets noise st states)) = optim_critic st"
  by (simp_all add: update_actor_def entropy_adjust_func_def Let_def split: prod.splits)

text \<open>
  Claim C2. For a batch of states on which the policy network gives a mean and a log-std of
  the same length, the actor loss is the mean over the batch of
  \<open>alpha * log_pi - min (q1 (s, a)) (q2 (s, a))\<close>, where \<open>a\<close> and \<open>log_pi\<close> are the
  stochastic sample of the policy at the batch states, one action per state, drawn with
  gradients enabled: with a trainable actor the actions, the log-probabilities and the loss
  are tracked by autograd. The log-probabilities returned with the loss are those of this
  sample. The actor update replaces the actor's parameters by the result of the actor
  optimizer's step on them, with the clipped gradients; the critic, its optimizer, the
  target critic and the replay buffer are as before.
\<close>

theorem actor_loss_formula:
  assumes "\<forall>s\<in>set (rows states).
             length (fst (actor_net nets (params (actor st)) s))
               = length (snd (actor_net nets (params (actor st)) s))"
  shows "sval (fst (actor_loss_func nets noise st states)) =
      mean_list (map (\<lambda>i.
         sval (alpha st) * (rows (snd (sample_stochastic nets True noise (actor st) states)) ! i ! 0)
         - min (fst (critic_net nets (params (critic st)) (rows states ! i)
                  (rows (fst (sample_stochastic nets True noise (actor st) states)) ! i)))
               (snd (critic_net nets (params (critic st)) (rows states ! i)
                  (rows (fst (sample_stochastic nets True noise (actor st) states)) ! i))))
         [0..<length (rows states)]) \<and>
    length (rows (fst (sample_stochastic nets True noise (actor st) states))) = length (rows states) \<and>
    snd (actor_loss_func nets noise st states)
      = snd (sample_stochastic nets True noise (actor st) states) \<and>
    (trainable (actor st) \<longrightarrow>
       requires_grad (fst (sample_stochastic nets True noise (actor st) states)) \<and>
       requires_grad (snd (sample_stochastic nets True noise (actor st) states)) \<and>
       sgrad (fst (actor_loss_func nets noise st states))) \<and>
    params (actor (fst (update_actor nets noise st states)))
      = fst (optim_step nets (optim_actor st)
               (clip_grad_norm (actor_backward nets (params (actor st)) (params (critic st))
                                  (sval (alpha st)) states noise) (1 / 2))
               (params (actor st))) \<and>
    critic (fst (update_actor nets noise st states)) = critic st \<and>
    optim_critic (fst (update_actor nets noise st states)) = optim_critic st \<and>
    critic_target (fst (update_actor nets noise st states)) = critic_target st \<and>
    buffer (fst (update_actor nets noise st states)) = buffer st"
proof -
  note v = actor_loss_value [OF assms, of noise]
  show ?thesis
    unfolding v
    using sample_stochastic_shape(1) [OF assms, of True noise]
    by (simp add: sample_stochastic_grad actor_loss_log_pis update_actor_params
        update_actor_frame)
qed

text \<open>
  The theorem of C2 at the concrete instance: one state, \<open>alpha = 0.3\<close>, log-probability
  \<open>- (demo_grad + 0.1)\<close>, critic values 1 and 2.
\<close>

theorem actor_loss_formula_witness:
  "length (fst (actor_net demo_nets (params (actor demo_sac1)) [0]))
     = length (snd (actor_net demo_nets (params (actor demo_sac1)) [0])) \<and>
   trainable (actor demo_sac1) \<and>
   sval (fst (actor_loss_func demo_nets demo_noise demo_sac1 (from_rows [[0]])))
     = 3 / 10 * (- (demo_grad + 1 / 10)) - 1 \<and>
   sgrad (fst (actor_loss_func demo_nets demo_noise demo_sac1 (from_rows [[0]]))) \<and>
   critic (fst (update_actor demo_nets demo_noise demo_sac1 (from_rows [[0]]))) = critic demo_sac1 \<and>
   params (actor (fst (update_actor demo_nets demo_noise demo_sac1 (from_rows [[0]])))) = []"
proof -
  have r: "rows (from_rows x) = x" "requires_grad (from_rows x) = False" for x
    by (simp_all add: from_rows_def)
  have n: "critic_net demo_nets p s a = (1, 2)" "actor_net demo_nets p s = ([0], [0])"
    "optim_step demo_nets opt grads p = (p, opt)" for p s a opt grads
    by (simp_all add: demo_nets_def)
  have lp: "rows (snd (sample_stochastic demo_nets True demo_noise (actor demo_sac1)
                         (from_rows [[0]]))) = [[- (demo_grad + 1 / 10)]]"
    by (simp add: sample_stochastic_def actor_forward_def reparameterize_def calc_log_pi_def
        normal_log_prob_def tensor_defs demo_nets_def demo_noise_def demo_grad_def Let_def)
  have t: "trainable (actor demo_sac1)" "params (actor demo_sac1) = []"
    by (simp_all add: demo_sac1_alpha(4))
  show ?thesis
    using actor_loss_formula [where nets = demo_nets and noise = demo_noise and st = demo_sac1
        and states = "from_rows [[0]]"]
    by (simp add: lp n r t demo_sac1_alpha(1) mean_list_def)
qed

section \<open>Evaluation and the training environment\<close>

lemma eval_episodes_store:
  "eval_episodes fuel k ops nets tr h rets a = Some (res, h1) \<Longrightarrow> x \<noteq> env_test tr \<Longrightarrow>
     h1 x = h x"
proof (induction k arbitrary: h rets a)
  case 0
  then show ?case by simp
next
  case (Suc k)
  obtain s0 e0 where r: "env_reset ops (h (env_test tr)) = (s0, e0)"
    by (cases "env_reset ops (h (env_test tr))") auto
  from Suc.prems(1) obtain ret e1 where
    e: "run_episode fuel ops nets (algo tr) s0 0 e0 = Some (ret, e1)"
    and n: "eval_episodes fuel k ops nets tr (h(env_test tr := e1)) (rets @ [ret]) (a + ret)
              = Some (res, h1)"
    by (auto simp: r split: option.splits)
  show ?case using Suc.IH [OF n Suc.prems(2)] Suc.prems(2) by simp
qed

lemma evaluate_store:
  assumes "evaluate fuel ops nets tr h steps = Some (Inr (r, tr1, h1))" "x \<noteq> env_test tr"
  shows "h1 x = h x"
  using assms
  by (auto simp: evaluate_def Let_def dest: eval_episodes_store
      split: option.splits prod.splits if_splits)

text \<open>
  Claim C9. An evaluation that returns leaves the algorithm, and with it the replay buffer
  and the parameters of actor, critic and target critic, as it was; it changes the store at
  the reference \<open>env_test\<close> only. But the constructor binds \<open>env_test\<close> to the reference
  it binds \<open>env\<close> to, so the evaluation environment is the training environment: at the
  concrete instance, one step into a training episode (environment state 1), an evaluation
  of one episode resets this environment, runs it to the end of the episode and leaves it
  in state 2; the training episode in progress is gone.
\<close>

theorem evaluation_shares_environment:
  "env_test (fst (Trainer_init ops h0 env0 algo0 seed n ei ne))
     = env (fst (Trainer_init ops h0 env0 algo0 seed n ei ne)) \<and>
   (evaluate fuel ops nets tr h steps = Some (Inr (r, tr1, h1)) \<longrightarrow>
      algo tr1 = algo tr \<and> env tr1 = env tr \<and> env_test tr1 = env_test tr \<and>
      (\<forall>x. x \<noteq> env_test tr \<longrightarrow> h1 x = h x)) \<and>
   env_test (fst demo_config1) = env (fst demo_config1) \<and>
   fst (snd demo_config1) (env (fst demo_config1)) = 1 \<and>
   evaluate 5 demo_env demo_nets (fst demo_config1) (fst (snd demo_config1)) 100
     = Some (Inr (2, (fst demo_config1)\<lparr>returns_step := [100], returns_return := [2]\<rparr>,
                  (\<lambda>x. 0)(0 := 2)))"
proof -
  have i: "env_test (fst (Trainer_init ops h0 env0 algo0 seed n ei ne))
     = env (fst (Trainer_init ops h0 env0 algo0 seed n ei ne))"
    by (simp add: Trainer_init_def Let_def)
  have f: "algo tr1 = algo tr \<and> env tr1 = env tr \<and> env_test tr1 = env_test tr \<and>
      (\<forall>x. x \<noteq> env_test tr \<longrightarrow> h1 x = h x)"
    if "evaluate fuel ops nets tr h steps = Some (Inr (r, tr1, h1))"
    using evaluate_algo [OF that] evaluate_store [OF that] by simp
  have d: "env_test (fst demo_config1) = env (fst demo_config1)"
    "fst (snd demo_config1) (env (fst demo_config1)) = 1"
    by (simp_all add: demo_config1_def demo_trainer_def Trainer_init_def)
  have e: "evaluate 5 demo_env demo_nets (fst demo_config1) (fst (snd demo_config1)) 100
     = Some (Inr (2, (fst demo_config1)\<lparr>returns_step := [100], returns_return := [2]\<rparr>,
                  (\<lambda>x. 0)(0 := 2)))"
    by (simp add: evaluate_def demo_config1_def demo_trainer_def Trainer_init_def
        numeral_nat exploit_def sample_deterministic_def actor_forward_def tensor_defs
        mean_list_def demo_env_def demo_nets_def Let_def)
  show ?thesis using i f d e by blast
qed

text \<open>
  The theorem of C9 at the concrete instance: the evaluation returns, the algorithm is the
  same, and the store away from the environment's reference is the same.
\<close>

theorem evaluation_shares_environment_witness:
  "evaluate 5 demo_env demo_nets (fst demo_config1) (fst (snd demo_config1)) 100
     = Some (Inr (2, (fst demo_config1)\<lparr>returns_step := [100], returns_return := [2]\<rparr>,
                  (\<lambda>x. 0)(0 := 2))) \<and>
   algo ((fst demo_config1)\<lparr>returns_step := [100], returns_return := [2]\<rparr>)
     = algo (fst demo_config1) \<and>
   ((\<lambda>x. 0)(0 := 2)) (1::nat) = fst (snd demo_config1) 1"
  using evaluation_shares_environment [where ops = demo_env and ?h0.0 = "\<lambda>x. 0" and ?env0.0 = 0
      and ?algo0.0 = demo_sac2 and seed = 0 and n = 3 and ei = 100 and ne = 1
      and fuel = 5 and nets = demo_nets and tr = "fst demo_config1"
      and h = "fst (snd demo_config1)" and steps = 100 and r = 2
      and ?tr1.0 = "(fst demo_config1)\<lparr>returns_step := [100], returns_return := [2]\<rparr>"
      and ?h1.0 = "(\<lambda>x. 0)(0 := 2)"]
  by (simp add: demo_config1_def)

section \<open>Sampling from the replay buffer\<close>









end
